theory Spec2Isabelle
  imports Main "HOL-Library.Sublist" "HOL-Library.AList"
begin

section \<open>Python values used by youtube-downloader.py\<close>

text \<open>
  A Python \<open>str\<close> is a sequence of Unicode code points, so it is modelled as a list of
  natural numbers; \<open>str ''...''\<close> writes an ASCII literal. Text read from a file opened
  with \<open>encoding="utf-8"\<close> is the decoded sequence of code points.
\<close>

type_synonym pystr = "nat list"

definition str :: "string \<Rightarrow> pystr" where
  "str s = map of_char s"

text \<open>
  \<open>str.isspace\<close> for one code point: the characters \<open>str.strip()\<close> removes when it is
  called without an argument (tab, LF, VT, FF, CR, FS, GS, RS, US, space, NEL, NBSP and
  the Unicode space separators).
\<close>

definition isspace :: "nat \<Rightarrow> bool" where
  "isspace c = (c \<in> set ([9, 10, 11, 12, 13, 28, 29, 30, 31, 32, 133, 160, 5760]
                          @ [8192..<8203] @ [8232, 8233, 8239, 8287, 12288]))"

definition lstrip :: "pystr \<Rightarrow> pystr" where
  "lstrip s = dropWhile isspace s"

definition rstrip :: "pystr \<Rightarrow> pystr" where
  "rstrip s = rev (dropWhile isspace (rev s))"

definition strip :: "pystr \<Rightarrow> pystr" where
  "strip s = rstrip (lstrip s)"

definition startswith :: "pystr \<Rightarrow> pystr \<Rightarrow> bool" where
  "startswith s p = (take (length p) s = p)"

text \<open>\<open>sub in s\<close> for strings: \<open>sub\<close> occurs in \<open>s\<close> as a contiguous run.\<close>

fun contains :: "pystr \<Rightarrow> pystr \<Rightarrow> bool" where
  "contains [] sub = (sub = [])"
| "contains (c # cs) sub = (startswith (c # cs) sub \<or> contains cs sub)"

text \<open>The decimal digits that an f-string prints for a non-negative \<open>int\<close>.\<close>

fun digits :: "nat \<Rightarrow> pystr" where
  "digits n = (if n < 10 then [48 + n] else digits (n div 10) @ [48 + n mod 10])"

declare digits.simps [simp del]

text \<open>
  A \<open>pathlib.Path\<close> is kept symbolic: \<open>Path s\<close> is \<open>Path(s)\<close>, \<open>Expanduser p\<close> is
  \<open>p.expanduser()\<close> and \<open>Child p n\<close> is \<open>p / n\<close>. What a path denotes on disk, and the
  text \<open>str(p)\<close> prints for it, belong to the environment.
\<close>

datatype path = Path pystr | Expanduser path | Child path pystr

text \<open>Values stored in the option dictionaries handed to the download library.\<close>

datatype pyval =
    PyBool bool
  | PyInt int
  | PyStr pystr
  | PyPathStr path
  | PyHook string
  | PyList "pyval list"
  | PyDict "(string \<times> pyval) list"

type_synonym pydict = "(string \<times> pyval) list"

text \<open>\<open>d.update(e)\<close>: a key already present keeps its place, a new key goes to the end.\<close>

definition dict_update :: "pydict \<Rightarrow> pydict \<Rightarrow> pydict" where
  "dict_update d e = foldl (\<lambda>acc (k, v). AList.update k v acc) d e"

datatype media_kind = Audio | Video

section \<open>The environment of a run\<close>

text \<open>What opening the link file for reading and iterating over it gives.\<close>

datatype open_result =
    FileNotFoundError
  | OtherError pystr
  | Opened pystr

text \<open>What \<open>subprocess.run\<close> of the pip upgrade gives: an exception, or a completed process
  with its return code, standard output and standard error.\<close>

datatype pip_outcome =
    PipRaised pystr
  | PipDone int pystr pystr

text \<open>
  The dictionary a progress hook receives: \<open>status\<close> is \<open>d.get("status")\<close>,
  \<open>filename\<close> is \<open>d.get("filename")\<close> and \<open>info_filename\<close> is
  \<open>d.get("info_dict", {}).get("_filename")\<close>; \<open>None\<close> is Python's \<open>None\<close>.
\<close>

record progress =
  status :: "pystr option"
  filename :: "pystr option"
  info_filename :: "pystr option"

text \<open>
  How one \<open>with YoutubeDL(opts) as ydl: ret = ydl.download(urls)\<close> block behaves: the
  progress dictionaries the library passes to the hook, in order, and then either the
  return code or an exception of class \<open>Exception\<close>, raised by the constructor, by
  \<open>download\<close> or on leaving the block. What \<open>except Exception\<close> does not catch
  (\<open>KeyboardInterrupt\<close>, \<open>SystemExit\<close>) ends the process from outside and is not part
  of a run.
\<close>

datatype download_result = Returned int | Raised pystr

record driver_run =
  hooks :: "progress list"
  result :: download_result

record world =
  ytdlp_updated :: bool
  pip_run :: pip_outcome
  execvpe_error :: "pystr option"
  open_file :: "path \<Rightarrow> open_result"
  fspath :: "path \<Rightarrow> pystr"
  mkdir_error :: "path \<Rightarrow> pystr option"
  log_append_ok :: "nat \<Rightarrow> bool"
  now :: pystr
  have_ffmpeg :: bool
  ydl_run :: "media_kind \<Rightarrow> pydict \<Rightarrow> pystr list \<Rightarrow> driver_run"
  thread_lines :: "pystr list"

text \<open>
  The fields of \<open>world\<close>: \<open>ytdlp_updated\<close> is \<open>os.environ.get("YTDLP_UPDATED") == "1"\<close>
  at process start; \<open>execvpe_error\<close> is the exception \<open>os.execvpe\<close> raises, if it does;
  \<open>mkdir_error p\<close> is the exception \<open>p.mkdir(parents=True, exist_ok=True)\<close> raises, if
  it does; \<open>log_append_ok n\<close> tells whether the \<open>n\<close>-th attempt (from 0) to open the log
  file and write to it succeeds; \<open>now\<close> is the formatted \<open>datetime.now()\<close>;
  \<open>have_ffmpeg\<close> is \<open>shutil.which("ffmpeg") is not None\<close>; \<open>thread_lines\<close> are the
  lines \<open>print_non_main_threads\<close> would print for the threads other than the main one.
\<close>

section \<open>Observable effects and program state\<close>

datatype event =
    Stdout pystr
  | Stderr pystr
  | PrintHelp
  | Mkdir path bool bool
  | Append path pystr
  | Download media_kind pydict "pystr list"
  | Execvpe

text \<open>
  \<open>Stdout\<close>/\<open>Stderr\<close>: one \<open>print\<close> call with its text; \<open>PrintHelp\<close>:
  \<open>parser.print_help()\<close>; \<open>Mkdir p parents exist_ok\<close>: a successful \<open>p.mkdir\<close>;
  \<open>Append p t\<close>: the text \<open>t\<close> written at the end of file \<open>p\<close>; \<open>Download\<close>: one
  \<open>with YoutubeDL(opts) as ydl: ydl.download(urls)\<close> block entered, with its options
  and URL list; \<open>Execvpe\<close>: the process image replaced by a fresh interpreter running
  the same command line with \<open>YTDLP_UPDATED=1\<close>. Printing and flushing are taken to
  succeed.
\<close>

datatype outcome = Exit int | HardExit int | Uncaught pystr

text \<open>The status the operating system sees: an unhandled exception ends Python with 1.\<close>

fun exit_status :: "outcome \<Rightarrow> int" where
  "exit_status (Exit c) = c"
| "exit_status (HardExit c) = c"
| "exit_status (Uncaught e) = 1"

text \<open>
  The module's globals (\<open>counter\<close>, \<open>logfile_path\<close>) together with the effects so far.
  \<open>log_attempts\<close> counts the attempts to append to the log; it only selects the answer of
  \<open>log_append_ok\<close>.
\<close>

record state =
  counter_done :: nat
  counter_failed :: nat
  counter_total :: nat
  logfile_path :: "path option"
  trace :: "event list"
  log_attempts :: nat

definition init_state :: state where
  "init_state = \<lparr>counter_done = 0, counter_failed = 0, counter_total = 0,
                 logfile_path = None, trace = [], log_attempts = 0\<rparr>"

definition emit :: "event \<Rightarrow> state \<Rightarrow> state" where
  "emit e s = s\<lparr>trace := trace s @ [e]\<rparr>"

section \<open>Link Reader: \<open>read_links_from_file\<close>\<close>

text \<open>
  Text mode with the default \<open>newline=None\<close>: \<open>\r\n\<close> and a lone \<open>\r\<close> are read as
  \<open>\n\<close>.
\<close>

fun universal_newlines :: "pystr \<Rightarrow> pystr" where
  "universal_newlines [] = []"
| "universal_newlines [c] = [if c = 13 then 10 else c]"
| "universal_newlines (c # d # cs) =
     (if c = 13 \<and> d = 10 then 10 # universal_newlines cs
      else if c = 13 then 10 # universal_newlines (d # cs)
      else c # universal_newlines (d # cs))"

text \<open>\<open>for line in f\<close>: each line keeps its \<open>\n\<close>; a last line without one is a line too.\<close>

fun split_lines :: "pystr \<Rightarrow> pystr \<Rightarrow> pystr list" where
  "split_lines cur [] = (if cur = [] then [] else [cur])"
| "split_lines cur (c # cs) =
     (if c = 10 then (cur @ [c]) # split_lines [] cs else split_lines (cur @ [c]) cs)"

definition file_lines :: "pystr \<Rightarrow> pystr list" where
  "file_lines content = split_lines [] (universal_newlines content)"

text \<open>The body of the \<open>for\<close> loop, with \<open>links\<close> as the accumulator.\<close>

fun read_loop :: "pystr list \<Rightarrow> pystr list \<Rightarrow> pystr list" where
  "read_loop [] links = links"
| "read_loop (line # rest) links =
     (let s = strip line in
      if s = [] \<or> startswith s (str ''#'') then read_loop rest links
      else read_loop rest (links @ [s]))"

definition read_links_from_file ::
  "world \<Rightarrow> path \<Rightarrow> state \<Rightarrow> (outcome + pystr list) \<times> state" where
  "read_links_from_file w p s =
     (case open_file w p of
        Opened content \<Rightarrow> (Inr (read_loop (file_lines content) []), s)
      | FileNotFoundError \<Rightarrow>
          (Inl (Exit 1), emit (Stderr (str ''[!] Bestand niet gevonden: '' @ fspath w p)) s)
      | OtherError e \<Rightarrow> (Inl (Uncaught e), s))"

section \<open>URL Deduplicator\<close>

text \<open>
  \<open>seen = set(); urls = [u for u in urls if not (u in seen or seen.add(u))]\<close>:
  \<open>seen.add\<close> returns \<open>None\<close>, so an unseen \<open>u\<close> is kept and recorded.
\<close>

fun dedupe_loop :: "'a list \<Rightarrow> 'a set \<Rightarrow> 'a list" where
  "dedupe_loop [] seen = []"
| "dedupe_loop (u # us) seen =
     (if u \<in> seen then dedupe_loop us seen else u # dedupe_loop us (insert u seen))"

definition dedupe :: "'a list \<Rightarrow> 'a list" where
  "dedupe us = dedupe_loop us {}"

section \<open>Progress Aggregator and Session Logger\<close>

text \<open>
  \<open>write_log\<close>: nothing happens while \<open>logfile_path\<close> is \<open>None\<close>; otherwise the file is
  opened for appending and \<open>line.rstrip() + "\n"\<close> is written; an exception there is
  caught and dropped (\<open>except Exception: pass\<close>).
\<close>

definition write_log :: "world \<Rightarrow> pystr \<Rightarrow> state \<Rightarrow> state" where
  "write_log w line s =
     (case logfile_path s of
        None \<Rightarrow> s
      | Some p \<Rightarrow>
          (let s' = s\<lparr>log_attempts := log_attempts s + 1\<rparr> in
           if log_append_ok w (log_attempts s)
           then emit (Append p (rstrip line @ [10])) s'
           else s'))"

text \<open>An f-string field: \<open>None\<close> prints as the word None.\<close>

fun format_opt :: "pystr option \<Rightarrow> pystr" where
  "format_opt None = str ''None''"
| "format_opt (Some t) = t"

text \<open>\<open>d.get("filename") or d.get("info_dict", {}).get("_filename")\<close>: \<open>None\<close> and the
  empty string are falsy.\<close>

definition resolved_filename :: "progress \<Rightarrow> pystr option" where
  "resolved_filename d =
     (case filename d of
        Some f \<Rightarrow> if f \<noteq> [] then Some f else info_filename d
      | None \<Rightarrow> info_filename d)"

text \<open>The message of \<open>_on_progress\<close>; 10003 is the check mark U+2713.\<close>

definition finished_msg :: "nat \<Rightarrow> nat \<Rightarrow> pystr option \<Rightarrow> pystr" where
  "finished_msg dn tot fn =
     str ''('' @ digits dn @ str ''/'' @ digits tot @ str '') '' @ [10003]
       @ str '' Finished: '' @ format_opt fn"

definition on_progress :: "world \<Rightarrow> progress \<Rightarrow> state \<Rightarrow> state" where
  "on_progress w d s =
     (if status d = Some (str ''finished'') then
        (let s1 = s\<lparr>counter_done := counter_done s + 1\<rparr>;
             fn = resolved_filename d;
             msg = finished_msg (counter_done s1) (counter_total s1) fn
         in write_log w msg (emit (Stdout msg) s1))
      else s)"

section \<open>Option dictionaries\<close>

definition common_opts :: "bool \<Rightarrow> pydict" where
  "common_opts allow_playlists =
     [(''noplaylist'', PyBool (\<not> allow_playlists)),
      (''force_overwrites'', PyBool True),
      (''ignoreerrors'', PyStr (str ''only_download'')),
      (''retries'', PyInt 3),
      (''fragment_retries'', PyInt 3),
      (''concurrent_fragment_downloads'', PyInt 1),
      (''noprogress'', PyBool True),
      (''quiet'', PyBool True),
      (''nocheckcertificate'', PyBool True),
      (''progress_hooks'', PyList [PyHook ''_on_progress''])]"

text \<open>The file name template shared by both kinds; 34 is the double quote.\<close>

definition outtmpl_name :: pystr where
  "outtmpl_name =
     str ''%(artist,replace='' @ [34] @ str '' '' @ [34] @ str '','' @ [34] @ str ''_'' @ [34]
       @ str '')s-%(title,replace='' @ [34] @ str '' '' @ [34] @ str '','' @ [34] @ str ''_''
       @ [34] @ str '')s.%(ext)s''"

definition build_audio_opts :: "path \<Rightarrow> bool \<Rightarrow> pydict" where
  "build_audio_opts music_dir allow_playlists =
     dict_update (common_opts allow_playlists)
       [(''outtmpl'', PyPathStr (Child music_dir outtmpl_name)),
        (''outtmpl_na_placeholder'', PyStr (str ''unknown'')),
        (''format'', PyStr (str ''bestaudio/best'')),
        (''postprocessors'',
           PyList [PyDict [(''key'', PyStr (str ''FFmpegExtractAudio'')),
                           (''preferredcodec'', PyStr (str ''m4a'')),
                           (''preferredquality'', PyStr (str ''0''))]]),
        (''restrictfilenames'', PyBool True)]"

definition build_video_opts :: "path \<Rightarrow> bool \<Rightarrow> pydict" where
  "build_video_opts video_dir allow_playlists =
     dict_update (common_opts allow_playlists)
       [(''outtmpl'', PyPathStr (Child video_dir outtmpl_name)),
        (''outtmpl_na_placeholder'', PyStr (str ''unknown'')),
        (''format'', PyStr (str ''bestvideo[ext=mp4]+bestaudio[ext=m4a]/best[ext=mp4]/best'')),
        (''merge_output_format'', PyStr (str ''mp4'')),
        (''restrictfilenames'', PyBool True)]"

section \<open>Helpers of \<open>main\<close>\<close>

text \<open>
  \<open>auto_update_yt_dlp\<close>, given \<open>enable\<close> and whether \<open>YTDLP_UPDATED\<close> is \<open>"1"\<close>. The
  Boolean of the result tells that \<open>os.execvpe\<close> replaced the process image; 8230 is the
  ellipsis U+2026.
\<close>

definition auto_update_yt_dlp :: "bool \<Rightarrow> bool \<Rightarrow> world \<Rightarrow> state \<Rightarrow> bool \<times> state" where
  "auto_update_yt_dlp enable updated w s =
     (if \<not> enable then (False, s)
      else if updated then (False, s)
      else
        (let s1 = emit (Stdout (str ''[*] Checking for yt-dlp updates'' @ [8230])) s in
         case pip_run w of
           PipRaised e \<Rightarrow> (False, emit (Stderr (str ''[!] yt-dlp auto-update error: '' @ e)) s1)
         | PipDone returncode out err \<Rightarrow>
             if returncode = 0 then
               (let changed =
                      (contains out (str ''Successfully installed'')
                       \<or> contains err (str ''Successfully installed'')
                       \<or> contains out (str ''Successfully upgraded'')
                       \<or> contains err (str ''Successfully upgraded''))
                in if changed then
                     (let s2 = emit (Stdout (str ''[*] yt-dlp updated. Restarting once to use the new version'' @ [8230])) s1
                      in case execvpe_error w of
                           None \<Rightarrow> (True, emit Execvpe s2)
                         | Some e \<Rightarrow>
                             (False, emit (Stderr (str ''[!] yt-dlp auto-update error: '' @ e)) s2))
                   else (False, s1))
             else
               (False,
                emit (Stderr (str ''[!] yt-dlp auto-update failed (continuing with current version).'')) s1)))"

definition ensure_dirs :: "world \<Rightarrow> path \<Rightarrow> path \<Rightarrow> state \<Rightarrow> (outcome + unit) \<times> state" where
  "ensure_dirs w video_dir music_dir s =
     (case mkdir_error w video_dir of
        Some e \<Rightarrow> (Inl (Uncaught e), s)
      | None \<Rightarrow>
          (let s1 = emit (Mkdir video_dir True True) s in
           case mkdir_error w music_dir of
             Some e \<Rightarrow> (Inl (Uncaught e), s1)
           | None \<Rightarrow> (Inr (), emit (Mkdir music_dir True True) s1)))"

definition print_non_main_threads :: "world \<Rightarrow> state \<Rightarrow> state" where
  "print_non_main_threads w s =
     (if thread_lines w = [] then emit (Stdout (str ''[debug] Geen extra threads actief.'')) s
      else foldl (\<lambda>st l. emit (Stdout l) st)
             (emit (Stdout (str ''[debug] Actieve threads na afloop:'')) s) (thread_lines w))"

section \<open>\<open>main\<close>\<close>

record args =
  args_video :: bool
  args_audio :: bool
  args_file :: "pystr option"
  args_video_dir :: pystr
  args_music_dir :: pystr
  args_allow_playlists :: bool
  args_hard_exit :: bool
  args_debug_threads :: bool
  args_urls :: "pystr list"
  args_auto_update :: bool

definition want_video :: "args \<Rightarrow> bool" where
  "want_video a = (args_video a \<or> (\<not> args_video a \<and> \<not> args_audio a))"

definition want_audio :: "args \<Rightarrow> bool" where
  "want_audio a = (args_audio a \<or> (\<not> args_video a \<and> \<not> args_audio a))"

definition video_dir :: "args \<Rightarrow> path" where
  "video_dir a = Expanduser (Path (args_video_dir a))"

definition music_dir :: "args \<Rightarrow> path" where
  "music_dir a = Expanduser (Path (args_music_dir a))"

definition log_name :: pystr where
  "log_name = str ''download_log.txt''"

text \<open>Lines 209 to 212: \<open>urls\<close> after the optional link file. \<open>if args.file\<close> is false
  for \<open>None\<close> and for the empty string.\<close>

definition file_urls :: "args \<Rightarrow> world \<Rightarrow> state \<Rightarrow> (outcome + pystr list) \<times> state" where
  "file_urls a w s =
     (case args_file a of
        Some f \<Rightarrow> if f \<noteq> [] then read_links_from_file w (Path f) s else (Inr [], s)
      | None \<Rightarrow> (Inr [], s))"

text \<open>Lines 209 to 217: the links of the file, then those of the command line
  (\<open>if args.urls\<close> is false for the empty list), then the deduplication.\<close>

definition collect_urls :: "args \<Rightarrow> world \<Rightarrow> state \<Rightarrow> (outcome + pystr list) \<times> state" where
  "collect_urls a w s =
     (case file_urls a w s of
        (Inl out, s1) \<Rightarrow> (Inl out, s1)
      | (Inr from_file, s1) \<Rightarrow>
          (let urls = (if args_urls a \<noteq> [] then from_file @ args_urls a else from_file)
           in (Inr (dedupe urls), s1)))"

definition no_links_msg :: pystr where
  "no_links_msg = str ''[!] Geen links opgegeven. Gebruik -f / pad/naar/links.txt of geef URL(s) mee op de commandline.''"

definition no_ffmpeg_msg :: pystr where
  "no_ffmpeg_msg = str ''[!] ffmpeg niet gevonden. Installeer ffmpeg voor audio-extractie en muxen (bijv. apt install ffmpeg).''"

definition session_header :: "world \<Rightarrow> pystr" where
  "session_header w = [10] @ str ''=== Session '' @ now w @ str '' ===''"

definition choose_logfile :: "args \<Rightarrow> state \<Rightarrow> state" where
  "choose_logfile a s =
     (if want_video a then s\<lparr>logfile_path := Some (Child (video_dir a) log_name)\<rparr>
      else if want_audio a then s\<lparr>logfile_path := Some (Child (music_dir a) log_name)\<rparr>
      else s)"

text \<open>Lines 230 to 240: the log file is chosen, the session header and the URL count
  are logged, and a missing ffmpeg is reported.\<close>

definition begin_session :: "args \<Rightarrow> world \<Rightarrow> pystr list \<Rightarrow> state \<Rightarrow> state" where
  "begin_session a w urls s3 =
     (let s4 = choose_logfile a s3;
          s5 = write_log w (session_header w) s4;
          s6 = write_log w (str ''URLs: '' @ digits (length urls)) s5
      in if (want_audio a \<or> want_video a) \<and> \<not> have_ffmpeg w
         then emit (Stderr no_ffmpeg_msg) s6 else s6)"

text \<open>Lines 209 to 240: everything before \<open>exit_code = 0\<close>. \<open>Inr urls\<close> means that the
  run reaches the download stage with the list \<open>urls\<close>.\<close>

definition startup :: "args \<Rightarrow> world \<Rightarrow> state \<Rightarrow> (outcome + pystr list) \<times> state" where
  "startup a w s =
     (case collect_urls a w s of
        (Inl out, s1) \<Rightarrow> (Inl out, s1)
      | (Inr urls, s1) \<Rightarrow>
          if urls = [] then (Inl (Exit 2), emit PrintHelp (emit (Stderr no_links_msg) s1))
          else
            (case ensure_dirs w (video_dir a) (music_dir a)
                    (s1\<lparr>counter_total := length urls\<rparr>) of
               (Inl out, s3) \<Rightarrow> (Inl out, s3)
             | (Inr u, s3) \<Rightarrow> (Inr urls, begin_session a w urls s3)))"

text \<open>
  One \<open>try\<close> block of the download stage (lines 248 to 257 for audio, 263 to 272 for
  video, the same code twice): the library is called, its hook runs once per progress
  dictionary, and a non-zero return code or an exception counts one failure and sets
  \<open>exit_code\<close> to 1.
\<close>

fun kind_tag :: "media_kind \<Rightarrow> pystr" where
  "kind_tag Audio = str ''[AUDIO]''"
| "kind_tag Video = str ''[VIDEO]''"

definition run_driver ::
  "world \<Rightarrow> media_kind \<Rightarrow> pydict \<Rightarrow> pystr list \<Rightarrow> state \<times> int \<Rightarrow> state \<times> int" where
  "run_driver w kind opts urls = (\<lambda>(s, exit_code).
     (let s1 = emit (Download kind opts urls) s;
          run = ydl_run w kind opts urls;
          s2 = foldl (\<lambda>st d. on_progress w d st) s1 (hooks run)
      in case result run of
           Returned ret \<Rightarrow>
             if ret \<noteq> 0 then (s2\<lparr>counter_failed := counter_failed s2 + 1\<rparr>, 1)
             else (s2, exit_code)
         | Raised e \<Rightarrow>
             ((emit (Stderr (kind_tag kind @ str '' Fout: '' @ e)) s2)
                \<lparr>counter_failed := counter_failed s2 + 1\<rparr>, 1)))"

text \<open>The line printed before each kind; 8594 is the arrow U+2192.\<close>

definition download_banner :: "world \<Rightarrow> pystr \<Rightarrow> path \<Rightarrow> nat \<Rightarrow> pystr" where
  "download_banner w what dir n =
     str ''[*] Download '' @ what @ str '' '' @ [8594] @ str '' '' @ fspath w dir
       @ str '' ('' @ digits n @ str '' bestanden)''"

definition audio_stage :: "args \<Rightarrow> world \<Rightarrow> pystr list \<Rightarrow> state \<times> int \<Rightarrow> state \<times> int" where
  "audio_stage a w urls = (\<lambda>(s, exit_code).
     if want_audio a then
       run_driver w Audio (build_audio_opts (music_dir a) (args_allow_playlists a)) urls
         (emit (Stdout (download_banner w (str ''AUDIO'') (music_dir a) (length urls))) s,
          exit_code)
     else (s, exit_code))"

definition video_stage :: "args \<Rightarrow> world \<Rightarrow> pystr list \<Rightarrow> state \<times> int \<Rightarrow> state \<times> int" where
  "video_stage a w urls = (\<lambda>(s, exit_code).
     if want_video a then
       run_driver w Video (build_video_opts (video_dir a) (args_allow_playlists a)) urls
         (emit (Stdout (download_banner w (str ''VIDEO'') (video_dir a) (length urls))) s,
          exit_code)
     else (s, exit_code))"

text \<open>Lines 242 to 272: \<open>exit_code = 0\<close>, then audio, then video.\<close>

definition download_stage :: "args \<Rightarrow> world \<Rightarrow> pystr list \<Rightarrow> state \<Rightarrow> state \<times> int" where
  "download_stage a w urls s = video_stage a w urls (audio_stage a w urls (s, 0))"

text \<open>The summary; 9989 and 10060 are the marks U+2705 and U+274C.\<close>

definition summary_msg :: "nat \<Rightarrow> nat \<Rightarrow> pystr" where
  "summary_msg success failed =
     [10, 9989] @ str '' Klaar: '' @ digits success @ str '' gelukt, '' @ [10060] @ str '' ''
       @ digits failed @ str '' mislukt.''"

definition summary_log :: "nat \<Rightarrow> nat \<Rightarrow> pystr" where
  "summary_log success failed =
     str ''Done: '' @ digits success @ str '' ok, '' @ digits failed @ str '' failed''"

text \<open>Lines 274 to 291: summary, optional thread report, exit.\<close>

definition finish :: "args \<Rightarrow> world \<Rightarrow> state \<times> int \<Rightarrow> outcome \<times> state" where
  "finish a w = (\<lambda>(s, exit_code).
     (let success = counter_done s;
          failed = counter_failed s;
          s1 = emit (Stdout (summary_msg success failed)) s;
          s2 = write_log w (summary_log success failed) s1;
          s3 = (if args_debug_threads a then print_non_main_threads w s2 else s2)
      in (if args_hard_exit a then HardExit exit_code else Exit exit_code, s3)))"

text \<open>\<open>main\<close> from line 206 on, after the update check.\<close>

definition main_body :: "args \<Rightarrow> world \<Rightarrow> state \<Rightarrow> outcome \<times> state" where
  "main_body a w s =
     (case startup a w s of
        (Inl out, s1) \<Rightarrow> (out, s1)
      | (Inr urls, s1) \<Rightarrow> finish a w (download_stage a w urls s1))"

text \<open>
  \<open>main\<close>: when the update check replaces the process image, the fresh interpreter runs
  \<open>main\<close> again on the same command line, with fresh globals and \<open>YTDLP_UPDATED=1\<close>.
\<close>

definition after_exec :: "state \<Rightarrow> state" where
  "after_exec s = init_state\<lparr>trace := trace s\<rparr>"

function main :: "args \<Rightarrow> world \<Rightarrow> bool \<Rightarrow> state \<Rightarrow> outcome \<times> state" where
  "main a w updated s =
     (if fst (auto_update_yt_dlp (args_auto_update a) updated w s)
      then main a w True (after_exec (snd (auto_update_yt_dlp (args_auto_update a) updated w s)))
      else main_body a w (snd (auto_update_yt_dlp (args_auto_update a) updated w s)))"
  by pat_completeness auto
termination
proof (relation "measure (\<lambda>(a, w, updated, s). if updated then 0 else 1)")
  show "wf (measure (\<lambda>(a, w, updated, s). if updated then 0 else (1::nat)))"
    by simp
next
  fix a :: args and w :: world and updated :: bool and s :: state
  assume "fst (auto_update_yt_dlp (args_auto_update a) updated w s)"
  then have "\<not> updated"
    by (cases updated) (auto simp: auto_update_yt_dlp_def split: if_splits)
  then show "((a, w, True, after_exec (snd (auto_update_yt_dlp (args_auto_update a) updated w s))),
          (a, w, updated, s)) \<in> measure (\<lambda>(a, w, updated, s). if updated then 0 else 1)"
    by simp
qed

declare main.simps [simp del]

text \<open>A whole run of the program.\<close>

definition run :: "args \<Rightarrow> world \<Rightarrow> outcome \<times> state" where
  "run a w = main a w (ytdlp_updated w) init_state"

text \<open>
  The state in which \<open>main\<close> goes on at line 206: after the update check, and after the
  restart when there is one.
\<close>

definition update_phase :: "args \<Rightarrow> world \<Rightarrow> state" where
  "update_phase a w =
     (let r = auto_update_yt_dlp (args_auto_update a) (ytdlp_updated w) w init_state
      in if fst r then after_exec (snd r) else snd r)"

section \<open>Notions used to state the properties\<close>

text \<open>Kinds of events, to read a trace by.\<close>

fun is_download :: "event \<Rightarrow> bool" where
  "is_download (Download k opts us) = True"
| "is_download e = False"

fun is_mkdir :: "event \<Rightarrow> bool" where
  "is_mkdir (Mkdir p parents exist_ok) = True"
| "is_mkdir e = False"

fun is_append :: "event \<Rightarrow> bool" where
  "is_append (Append p t) = True"
| "is_append e = False"

text \<open>A driver call failed: it returned a non-zero code or raised.\<close>

definition call_failed :: "driver_run \<Rightarrow> bool" where
  "call_failed r = (case result r of Returned ret \<Rightarrow> ret \<noteq> 0 | Raised e \<Rightarrow> True)"

text \<open>What the library does in the audio pass and in the video pass of a run.\<close>

definition audio_run :: "args \<Rightarrow> world \<Rightarrow> pystr list \<Rightarrow> driver_run" where
  "audio_run a w us =
     ydl_run w Audio (build_audio_opts (music_dir a) (args_allow_playlists a)) us"

definition video_run :: "args \<Rightarrow> world \<Rightarrow> pystr list \<Rightarrow> driver_run" where
  "video_run a w us =
     ydl_run w Video (build_video_opts (video_dir a) (args_allow_playlists a)) us"

text \<open>What \<open>print_non_main_threads\<close> prints.\<close>

definition thread_report :: "world \<Rightarrow> event list" where
  "thread_report w =
     (if thread_lines w = [] then [Stdout (str ''[debug] Geen extra threads actief.'')]
      else Stdout (str ''[debug] Actieve threads na afloop:'') # map Stdout (thread_lines w))"

text \<open>The number of \<open>finished\<close> signals among the hook calls of one driver call.\<close>

definition finished_count :: "driver_run \<Rightarrow> nat" where
  "finished_count r = length (filter (\<lambda>d. status d = Some (str ''finished'')) (hooks r))"

text \<open>
  The Link Reader in the specification's words: the lines of the file (without their
  line ends), of which a line is a link unless it is empty after trimming whitespace or
  its first non-whitespace character is \<open>#\<close> (code point 35).
\<close>

definition chomp :: "pystr \<Rightarrow> pystr" where
  "chomp l = (if l \<noteq> [] \<and> last l = 10 then butlast l else l)"

definition text_lines :: "pystr \<Rightarrow> pystr list" where
  "text_lines content = map chomp (file_lines content)"

definition first_nonspace :: "pystr \<Rightarrow> nat option" where
  "first_nonspace l = List.find (\<lambda>c. \<not> isspace c) l"

definition is_link_line :: "pystr \<Rightarrow> bool" where
  "is_link_line l = (strip l \<noteq> [] \<and> first_nonspace l \<noteq> Some 35)"

definition link_lines :: "pystr \<Rightarrow> pystr list" where
  "link_lines content = filter is_link_line (text_lines content)"

section \<open>An example environment\<close>

definition example_file :: pystr where
  "example_file =
     str ''  '' @ [10] @ str ''# comment'' @ [10] @ str ''http://x'' @ [10, 10]
       @ str ''http://y'' @ [10]"

definition padded_file :: pystr where
  "padded_file = str ''  http://x  '' @ [10]"

fun posix_str :: "path \<Rightarrow> pystr" where
  "posix_str (Path t) = t"
| "posix_str (Expanduser p) = posix_str p"
| "posix_str (Child p n) = posix_str p @ str ''/'' @ n"

text \<open>A library run that signals one finished unit per URL and returns 0.\<close>

definition finished_each :: "pystr list \<Rightarrow> driver_run" where
  "finished_each us =
     \<lparr>hooks = map (\<lambda>u. \<lparr>status = Some (str ''finished''), filename = Some u,
                         info_filename = None\<rparr>) us,
      result = Returned 0\<rparr>"

definition demo_world :: world where
  "demo_world =
     \<lparr>ytdlp_updated = False,
      pip_run = PipDone 0 [] [],
      execvpe_error = None,
      open_file = (\<lambda>p. if p = Path (str ''links.txt'') then Opened example_file
                        else if p = Path (str ''padded.txt'') then Opened padded_file
                        else FileNotFoundError),
      fspath = posix_str,
      mkdir_error = (\<lambda>p. None),
      log_append_ok = (\<lambda>n. True),
      now = str ''2024-01-01 12:00:00'',
      have_ffmpeg = True,
      ydl_run = (\<lambda>k opts us. finished_each us),
      thread_lines = []\<rparr>"

definition demo_args :: args where
  "demo_args =
     \<lparr>args_video = False, args_audio = False,
      args_file = Some (str ''links.txt''),
      args_video_dir = str ''/home/u/Videos'',
      args_music_dir = str ''/home/u/Music'',
      args_allow_playlists = False, args_hard_exit = False, args_debug_threads = False,
      args_urls = [], args_auto_update = False\<rparr>"

definition no_file_args :: args where
  "no_file_args = demo_args\<lparr>args_file := None\<rparr>"

definition missing_args :: args where
  "missing_args = demo_args\<lparr>args_file := Some (str ''missing.txt'')\<rparr>"

definition audio_only_args :: args where
  "audio_only_args = demo_args\<lparr>args_audio := True\<rparr>"

text \<open>An environment in which the audio pass raises and the video pass succeeds.\<close>

definition failing_world :: world where
  "failing_world =
     demo_world\<lparr>ydl_run := (\<lambda>k opts us.
        if k = Audio then \<lparr>hooks = [], result = Raised (str ''boom'')\<rparr>
        else finished_each us)\<rparr>"

text \<open>A finished signal whose file name ends in a blank, and a state with a log file.\<close>

definition spaced_hook :: progress where
  "spaced_hook = \<lparr>status = Some (str ''finished''), filename = Some (str ''a ''),
                  info_filename = None\<rparr>"

definition waiting_hook :: progress where
  "waiting_hook = \<lparr>status = Some (str ''downloading''), filename = Some (str ''a''),
                   info_filename = None\<rparr>"

definition logged_state :: state where
  "logged_state = init_state\<lparr>logfile_path := Some (Path (str ''log'')), counter_total := 2\<rparr>"

definition cli_args :: args where
  "cli_args = demo_args\<lparr>args_urls := [str ''http://y'', str ''http://z'']\<rparr>"

definition padded_args :: args where
  "padded_args = demo_args\<lparr>args_file := Some (str ''padded.txt'')\<rparr>"

section \<open>Evaluating strings\<close>

lemmas string_eval = str_def strip_def lstrip_def rstrip_def isspace_def startswith_def

lemma demo_open: "open_file demo_world (Path (str ''links.txt'')) = Opened example_file"
  by (simp add: demo_world_def)

lemma example_read:
  "open_file w (Path (str ''links.txt'')) = Opened example_file \<Longrightarrow>
   read_links_from_file w (Path (str ''links.txt'')) s
     = (Inr [str ''http://x'', str ''http://y''], s)"
  by (simp add: read_links_from_file_def)
     (simp add: file_lines_def example_file_def string_eval)

section \<open>URL Deduplicator: proofs\<close>

lemma dedupe_loop_set: "set (dedupe_loop us seen) = set us - seen"
  by (induction us arbitrary: seen) auto

lemma dedupe_loop_distinct: "distinct (dedupe_loop us seen)"
  by (induction us arbitrary: seen) (auto simp: dedupe_loop_set)

lemma dedupe_loop_subseq: "subseq (dedupe_loop us seen) us"
  by (induction us arbitrary: seen) auto

lemma dedupe_loop_snoc:
  "dedupe_loop (us @ [u]) seen =
     dedupe_loop us seen @ (if u \<in> seen \<union> set us then [] else [u])"
  by (induction us arbitrary: seen) auto

text \<open>The elements standing at the positions of first occurrence, in order.\<close>

lemma first_positions_snoc:
  "map ((!) (xs @ [x]))
     (filter (\<lambda>i. (xs @ [x]) ! i \<notin> set (take i (xs @ [x]))) [0..<length (xs @ [x])])
   = map ((!) xs) (filter (\<lambda>i. xs ! i \<notin> set (take i xs)) [0..<length xs])
     @ (if x \<in> set xs then [] else [x])"
proof -
  have a: "filter (\<lambda>i. (xs @ [x]) ! i \<notin> set (take i (xs @ [x]))) [0..<length xs]
         = filter (\<lambda>i. xs ! i \<notin> set (take i xs)) [0..<length xs]"
    by (rule filter_cong) (auto simp: nth_append)
  have b: "map ((!) (xs @ [x])) (filter (\<lambda>i. xs ! i \<notin> set (take i xs)) [0..<length xs])
         = map ((!) xs) (filter (\<lambda>i. xs ! i \<notin> set (take i xs)) [0..<length xs])"
    by (rule map_cong) (auto simp: nth_append)
  show ?thesis using a b by simp
qed

lemma dedupe_first_positions:
  "dedupe xs = map ((!) xs) (filter (\<lambda>i. xs ! i \<notin> set (take i xs)) [0..<length xs])"
proof (induction xs rule: rev_induct)
  case Nil
  show ?case by (simp add: dedupe_def)
next
  case (snoc x xs)
  have "dedupe (xs @ [x]) = dedupe xs @ (if x \<in> set xs then [] else [x])"
    by (simp add: dedupe_def dedupe_loop_snoc)
  then show ?case using snoc first_positions_snoc [of xs x] by simp
qed

lemma collect_urls_dedupe:
  "file_urls a w s = (Inr from_file, s1) \<Longrightarrow>
   collect_urls a w s = (Inr (dedupe (from_file @ args_urls a)), s1)"
  by (simp add: collect_urls_def)

text \<open>
  C1. In \<open>main\<close> the list handed to the deduplication is the links of the file followed
  by the URLs of the command line. For every list, the deduplicated list has no
  repetition, has the same elements, is a subsequence of the input, and consists of
  the elements at the positions where a string occurs for the first time, in that
  order. The list a, b, a, c, b gives a, b, c.
\<close>

theorem dedupe_first_appearance:
  assumes "file_urls a w s = (Inr from_file, s1)"
  shows "collect_urls a w s = (Inr (dedupe (from_file @ args_urls a)), s1)
       \<and> (\<forall>xs :: pystr list.
            distinct (dedupe xs) \<and> set (dedupe xs) = set xs \<and> subseq (dedupe xs) xs
            \<and> dedupe xs
                = map ((!) xs) (filter (\<lambda>i. xs ! i \<notin> set (take i xs)) [0..<length xs]))
       \<and> dedupe [str ''a'', str ''b'', str ''a'', str ''c'', str ''b'']
           = [str ''a'', str ''b'', str ''c'']"
proof -
  have general: "\<forall>xs :: pystr list.
            distinct (dedupe xs) \<and> set (dedupe xs) = set xs \<and> subseq (dedupe xs) xs
            \<and> dedupe xs
                = map ((!) xs) (filter (\<lambda>i. xs ! i \<notin> set (take i xs)) [0..<length xs])"
  proof (intro allI conjI)
    fix xs :: "pystr list"
    show "distinct (dedupe xs)" by (simp add: dedupe_def dedupe_loop_distinct)
    show "set (dedupe xs) = set xs" by (simp add: dedupe_def dedupe_loop_set)
    show "subseq (dedupe xs) xs" by (simp add: dedupe_def dedupe_loop_subseq)
    show "dedupe xs
            = map ((!) xs) (filter (\<lambda>i. xs ! i \<notin> set (take i xs)) [0..<length xs])"
      by (rule dedupe_first_positions)
  qed
  have example: "dedupe [str ''a'', str ''b'', str ''a'', str ''c'', str ''b'']
           = [str ''a'', str ''b'', str ''c'']"
    by (simp add: dedupe_def str_def)
  show ?thesis using collect_urls_dedupe [OF assms] general example by blast
qed

theorem dedupe_first_appearance_witness:
  "file_urls cli_args demo_world init_state
     = (Inr [str ''http://x'', str ''http://y''], init_state)
   \<and> collect_urls cli_args demo_world init_state
     = (Inr [str ''http://x'', str ''http://y'', str ''http://z''], init_state)"
proof -
  have f: "file_urls cli_args demo_world init_state
     = (Inr [str ''http://x'', str ''http://y''], init_state)"
    by (simp add: file_urls_def cli_args_def demo_args_def example_read [OF demo_open])
       (simp add: str_def)
  have "args_urls cli_args = [str ''http://y'', str ''http://z'']"
    by (simp add: cli_args_def)
  then have "collect_urls cli_args demo_world init_state
     = (Inr (dedupe [str ''http://x'', str ''http://y'', str ''http://y'', str ''http://z'']),
        init_state)"
    using dedupe_first_appearance [OF f] by simp
  moreover have
    "dedupe [str ''http://x'', str ''http://y'', str ''http://y'', str ''http://z'']
       = [str ''http://x'', str ''http://y'', str ''http://z'']"
    by (simp add: dedupe_def str_def)
  ultimately show ?thesis using f by simp
qed

section \<open>Link Reader: proofs\<close>

lemma isspace_LF: "isspace 10"
  by (simp add: isspace_def)

lemma rstrip_Nil: "rstrip [] = []"
  by (simp add: rstrip_def)

lemma rstrip_snoc_space: "isspace c \<Longrightarrow> rstrip (l @ [c]) = rstrip l"
  by (simp add: rstrip_def)

lemma rstrip_snoc_nonspace: "\<not> isspace c \<Longrightarrow> rstrip (l @ [c]) = l @ [c]"
  by (simp add: rstrip_def)

lemma rstrip_Cons_nonspace: "\<not> isspace c \<Longrightarrow> \<exists>r. rstrip (c # m) = c # r"
proof -
  assume c: "\<not> isspace c"
  have "dropWhile isspace (rev m @ [c]) = dropWhile isspace (rev m) @ [c]"
    using c by (simp add: dropWhile_append)
  then have "rstrip (c # m) = c # rev (dropWhile isspace (rev m))"
    by (simp add: rstrip_def)
  then show ?thesis by blast
qed

lemma strip_snoc_space: "isspace c \<Longrightarrow> strip (l @ [c]) = strip l"
proof -
  assume c: "isspace c"
  show ?thesis
  proof (cases "\<forall>x\<in>set l. isspace x")
    case True
    then have d: "dropWhile isspace l = []" by simp
    show ?thesis using c True by (simp add: strip_def lstrip_def rstrip_Nil dropWhile_append d)
  next
    case False
    then have "dropWhile isspace (l @ [c]) = dropWhile isspace l @ [c]"
      by (simp add: dropWhile_append)
    then show ?thesis using c by (simp add: strip_def lstrip_def rstrip_snoc_space)
  qed
qed

lemma strip_chomp: "strip (chomp l) = strip l"
proof (cases "l \<noteq> [] \<and> last l = 10")
  case True
  then have "l = butlast l @ [10]" by (metis append_butlast_last_id)
  then have "strip l = strip (butlast l)"
    using strip_snoc_space [OF isspace_LF, of "butlast l"] by simp
  then show ?thesis using True by (simp add: chomp_def)
next
  case False
  then show ?thesis by (auto simp: chomp_def)
qed

text \<open>What \<open>not s\<close> and \<open>s.startswith("#")\<close> say about the untrimmed line.\<close>

lemma strip_first_nonspace:
  "(strip l = [] \<longleftrightarrow> first_nonspace l = None) \<and>
   (\<forall>c. startswith (strip l) [c] \<longleftrightarrow> first_nonspace l = Some c)"
proof (cases "dropWhile isspace l")
  case Nil
  have "first_nonspace l = None"
    by (simp add: first_nonspace_def find_dropWhile comp_def Nil)
  then show ?thesis by (simp add: strip_def lstrip_def rstrip_Nil startswith_def Nil)
next
  case (Cons c m)
  then have c: "\<not> isspace c" by (metis hd_dropWhile list.distinct(1) list.sel(1))
  have f: "first_nonspace l = Some c"
    by (simp add: first_nonspace_def find_dropWhile comp_def Cons)
  obtain r where "rstrip (c # m) = c # r" using rstrip_Cons_nonspace [OF c] by blast
  then have "strip l = c # r" by (simp add: strip_def lstrip_def Cons)
  then show ?thesis using f by (auto simp: startswith_def)
qed

lemma is_link_line_code:
  "is_link_line l \<longleftrightarrow> \<not> (strip l = [] \<or> startswith (strip l) (str ''#''))"
proof -
  have "str ''#'' = [35]" by (simp add: str_def)
  then show ?thesis using strip_first_nonspace [of l] by (auto simp: is_link_line_def)
qed

lemma read_loop_filter:
  "read_loop ls links =
     links @ map strip (filter (\<lambda>l. \<not> (strip l = [] \<or> startswith (strip l) (str ''#''))) ls)"
  by (induction ls arbitrary: links) (auto simp: Let_def)

lemma read_loop_link_lines:
  "read_loop ls [] = map strip (filter is_link_line (map chomp ls))"
  by (simp add: read_loop_filter is_link_line_code strip_chomp filter_map comp_def)

text \<open>
  C2, as amended. For every text file the Link Reader returns, in file order, the
  whitespace-trimmed text of exactly the lines that are non-empty after trimming
  whitespace and whose first non-whitespace character is not \<open>#\<close>. On the file
  \<open>"  \n# comment\nhttp://x\n\nhttp://y\n"\<close> that is \<open>http://x\<close>, \<open>http://y\<close>.
\<close>

theorem read_links_trimmed_link_lines:
  assumes "open_file w p = Opened content"
  shows "read_links_from_file w p s = (Inr (map strip (link_lines content)), s)
       \<and> map strip (link_lines example_file) = [str ''http://x'', str ''http://y'']"
proof -
  have "read_links_from_file w p s = (Inr (map strip (link_lines content)), s)"
    using assms
    by (simp add: read_links_from_file_def read_loop_link_lines link_lines_def text_lines_def)
  moreover have "map strip (link_lines example_file) = [str ''http://x'', str ''http://y'']"
    by (simp add: link_lines_def text_lines_def file_lines_def example_file_def chomp_def
          is_link_line_def first_nonspace_def string_eval)
  ultimately show ?thesis by simp
qed

theorem read_links_trimmed_link_lines_witness:
  "open_file demo_world (Path (str ''links.txt'')) = Opened example_file
   \<and> read_links_from_file demo_world (Path (str ''links.txt'')) init_state
       = (Inr [str ''http://x'', str ''http://y''], init_state)"
proof -
  have o: "open_file demo_world (Path (str ''links.txt'')) = Opened example_file"
    by (simp add: demo_world_def)
  show ?thesis using o read_links_trimmed_link_lines [OF o, of init_state] by simp
qed

text \<open>
  C2 as the claim words it, returning the lines themselves, fails on a line with
  blanks around the link: the file \<open>"  http://x  \n"\<close> has the one link line
  \<open>"  http://x  "\<close>, and the Link Reader returns \<open>"http://x"\<close>.
\<close>

theorem read_links_lines_counterexample:
  "open_file demo_world (Path (str ''padded.txt'')) = Opened padded_file
   \<and> link_lines padded_file = [str ''  http://x  '']
   \<and> fst (read_links_from_file demo_world (Path (str ''padded.txt'')) init_state)
       = Inr [str ''http://x'']
   \<and> fst (read_links_from_file demo_world (Path (str ''padded.txt'')) init_state)
       \<noteq> Inr (link_lines padded_file)"
proof -
  have o: "open_file demo_world (Path (str ''padded.txt'')) = Opened padded_file"
    by (simp add: demo_world_def str_def)
  have l: "link_lines padded_file = [str ''  http://x  '']"
    by (simp add: link_lines_def text_lines_def file_lines_def padded_file_def chomp_def
          is_link_line_def first_nonspace_def string_eval)
  have r: "fst (read_links_from_file demo_world (Path (str ''padded.txt'')) init_state)
       = Inr [str ''http://x'']"
    by (simp add: read_links_from_file_def o)
      (simp add: file_lines_def padded_file_def string_eval)
  have "[str ''http://x''] \<noteq> [str ''  http://x  '']"
    by (simp add: str_def)
  then show ?thesis using o l r by simp
qed

section \<open>Proofs: what each step changes\<close>

lemma emit_fields [simp]:
  "counter_done (emit e s) = counter_done s"
  "counter_failed (emit e s) = counter_failed s"
  "counter_total (emit e s) = counter_total s"
  "logfile_path (emit e s) = logfile_path s"
  "log_attempts (emit e s) = log_attempts s"
  "trace (emit e s) = trace s @ [e]"
  by (simp_all add: emit_def)

lemma write_log_fields [simp]:
  "counter_done (write_log w l s) = counter_done s"
  "counter_failed (write_log w l s) = counter_failed s"
  "counter_total (write_log w l s) = counter_total s"
  "logfile_path (write_log w l s) = logfile_path s"
  by (simp_all add: write_log_def Let_def split: option.splits)

lemma write_log_trace:
  "trace (write_log w l s) =
     trace s @ (case logfile_path s of
                  None \<Rightarrow> []
                | Some p \<Rightarrow> if log_append_ok w (log_attempts s)
                            then [Append p (rstrip l @ [10])] else [])"
  by (simp add: write_log_def Let_def split: option.splits)

lemma write_log_attempts:
  "log_attempts (write_log w l s) =
     (case logfile_path s of None \<Rightarrow> log_attempts s | Some p \<Rightarrow> log_attempts s + 1)"
  by (simp add: write_log_def Let_def split: option.splits)

lemma write_log_no_append:
  "\<forall>p t. \<not> P (Append p t) \<Longrightarrow> filter P (trace (write_log w l s)) = filter P (trace s)"
  by (simp add: write_log_trace split: option.splits)

lemma on_progress_fields [simp]:
  "counter_failed (on_progress w d s) = counter_failed s"
  "counter_total (on_progress w d s) = counter_total s"
  "logfile_path (on_progress w d s) = logfile_path s"
  by (simp_all add: on_progress_def Let_def)

lemma on_progress_done:
  "counter_done (on_progress w d s) =
     counter_done s + (if status d = Some (str ''finished'') then 1 else 0)"
  by (simp add: on_progress_def Let_def)

lemma on_progress_filter:
  "\<forall>p t. \<not> P (Append p t) \<Longrightarrow> \<forall>t. \<not> P (Stdout t) \<Longrightarrow>
   filter P (trace (on_progress w d s)) = filter P (trace s)"
  by (simp add: on_progress_def Let_def write_log_no_append)

lemma hooks_fields [simp]:
  "counter_failed (foldl (\<lambda>st d. on_progress w d st) s ds) = counter_failed s"
  "counter_total (foldl (\<lambda>st d. on_progress w d st) s ds) = counter_total s"
  "logfile_path (foldl (\<lambda>st d. on_progress w d st) s ds) = logfile_path s"
  by (induction ds arbitrary: s) simp_all

lemma hooks_done:
  "counter_done (foldl (\<lambda>st d. on_progress w d st) s ds) =
     counter_done s + length (filter (\<lambda>d. status d = Some (str ''finished'')) ds)"
  by (induction ds arbitrary: s) (simp_all add: on_progress_done)

lemma hooks_filter:
  "\<forall>p t. \<not> P (Append p t) \<Longrightarrow> \<forall>t. \<not> P (Stdout t) \<Longrightarrow>
   filter P (trace (foldl (\<lambda>st d. on_progress w d st) s ds)) = filter P (trace s)"
  by (induction ds arbitrary: s) (simp_all add: on_progress_filter)

section \<open>One driver call\<close>

lemma run_driver_done:
  "counter_done (fst (run_driver w k opts us (s, ec))) =
     counter_done s + finished_count (ydl_run w k opts us)"
  by (simp add: run_driver_def Let_def hooks_done finished_count_def split: download_result.splits)

lemma run_driver_failed:
  "counter_failed (fst (run_driver w k opts us (s, ec))) =
     counter_failed s + (if call_failed (ydl_run w k opts us) then 1 else 0)"
  by (simp add: run_driver_def Let_def call_failed_def split: download_result.splits)

lemma run_driver_exit_code:
  "snd (run_driver w k opts us (s, ec)) =
     (if call_failed (ydl_run w k opts us) then 1 else ec)"
  by (simp add: run_driver_def Let_def call_failed_def split: download_result.splits)

lemma run_driver_frame [simp]:
  "counter_total (fst (run_driver w k opts us (s, ec))) = counter_total s"
  "logfile_path (fst (run_driver w k opts us (s, ec))) = logfile_path s"
  by (simp_all add: run_driver_def Let_def split: download_result.splits)

lemma run_driver_downloads:
  "filter is_download (trace (fst (run_driver w k opts us (s, ec)))) =
     filter is_download (trace s) @ [Download k opts us]"
  by (simp add: run_driver_def Let_def hooks_filter split: download_result.splits)


section \<open>The download stage\<close>

lemma audio_stage_done:
  "counter_done (fst (audio_stage a w us (s, ec))) =
     counter_done s + (if want_audio a then finished_count (audio_run a w us) else 0)"
  by (simp add: audio_stage_def run_driver_done audio_run_def)

lemma audio_stage_failed:
  "counter_failed (fst (audio_stage a w us (s, ec))) =
     counter_failed s + (if want_audio a \<and> call_failed (audio_run a w us) then 1 else 0)"
  by (simp add: audio_stage_def run_driver_failed audio_run_def)

lemma audio_stage_exit_code:
  "snd (audio_stage a w us (s, ec)) =
     (if want_audio a \<and> call_failed (audio_run a w us) then 1 else ec)"
  by (simp add: audio_stage_def run_driver_exit_code audio_run_def)

lemma audio_stage_downloads:
  "filter is_download (trace (fst (audio_stage a w us (s, ec)))) =
     filter is_download (trace s)
       @ (if want_audio a
          then [Download Audio (build_audio_opts (music_dir a) (args_allow_playlists a)) us]
          else [])"
  by (simp add: audio_stage_def run_driver_downloads)

lemma video_stage_done:
  "counter_done (fst (video_stage a w us (s, ec))) =
     counter_done s + (if want_video a then finished_count (video_run a w us) else 0)"
  by (simp add: video_stage_def run_driver_done video_run_def)

lemma video_stage_failed:
  "counter_failed (fst (video_stage a w us (s, ec))) =
     counter_failed s + (if want_video a \<and> call_failed (video_run a w us) then 1 else 0)"
  by (simp add: video_stage_def run_driver_failed video_run_def)

lemma video_stage_exit_code:
  "snd (video_stage a w us (s, ec)) =
     (if want_video a \<and> call_failed (video_run a w us) then 1 else ec)"
  by (simp add: video_stage_def run_driver_exit_code video_run_def)

lemma video_stage_downloads:
  "filter is_download (trace (fst (video_stage a w us (s, ec)))) =
     filter is_download (trace s)
       @ (if want_video a
          then [Download Video (build_video_opts (video_dir a) (args_allow_playlists a)) us]
          else [])"
  by (simp add: video_stage_def run_driver_downloads)

lemma download_stage_done:
  "counter_done (fst (download_stage a w us s)) =
     counter_done s + (if want_audio a then finished_count (audio_run a w us) else 0)
       + (if want_video a then finished_count (video_run a w us) else 0)"
  unfolding download_stage_def
  by (cases "audio_stage a w us (s, 0)")
     (metis audio_stage_done video_stage_done fst_conv)

lemma download_stage_failed:
  "counter_failed (fst (download_stage a w us s)) =
     counter_failed s + (if want_audio a \<and> call_failed (audio_run a w us) then 1 else 0)
       + (if want_video a \<and> call_failed (video_run a w us) then 1 else 0)"
  unfolding download_stage_def
  by (cases "audio_stage a w us (s, 0)")
     (metis audio_stage_failed video_stage_failed fst_conv)

lemma download_stage_exit_code:
  "snd (download_stage a w us s) =
     (if (want_audio a \<and> call_failed (audio_run a w us))
         \<or> (want_video a \<and> call_failed (video_run a w us)) then 1 else 0)"
proof -
  obtain s1 ec1 where a: "audio_stage a w us (s, 0) = (s1, ec1)"
    by (cases "audio_stage a w us (s, 0)")
  have "ec1 = (if want_audio a \<and> call_failed (audio_run a w us) then 1 else 0)"
    using audio_stage_exit_code [of a w us s 0] a by simp
  then show ?thesis
    using video_stage_exit_code [of a w us s1 ec1] a by (simp add: download_stage_def)
qed

lemma download_stage_downloads:
  "filter is_download (trace (fst (download_stage a w us s))) =
     filter is_download (trace s)
       @ (if want_audio a
          then [Download Audio (build_audio_opts (music_dir a) (args_allow_playlists a)) us]
          else [])
       @ (if want_video a
          then [Download Video (build_video_opts (video_dir a) (args_allow_playlists a)) us]
          else [])"
proof -
  obtain s1 ec1 where a: "audio_stage a w us (s, 0) = (s1, ec1)"
    by (cases "audio_stage a w us (s, 0)")
  show ?thesis
    using audio_stage_downloads [of a w us s 0] video_stage_downloads [of a w us s1 ec1] a
    by (simp add: download_stage_def)
qed

lemma run_driver_filter:
  assumes "\<forall>p t. \<not> P (Append p t)" and "\<forall>t. \<not> P (Stdout t)" and "\<forall>t. \<not> P (Stderr t)"
    and "\<forall>k opts us. \<not> P (Download k opts us)"
  shows "filter P (trace (fst (run_driver w k opts us (s, ec)))) = filter P (trace s)"
  using assms by (simp add: run_driver_def Let_def hooks_filter split: download_result.splits)

lemma download_stage_filter:
  assumes "\<forall>p t. \<not> P (Append p t)" and "\<forall>t. \<not> P (Stdout t)" and "\<forall>t. \<not> P (Stderr t)"
    and "\<forall>k opts us. \<not> P (Download k opts us)"
  shows "filter P (trace (fst (download_stage a w us s))) = filter P (trace s)"
proof -
  obtain s1 ec1 where a: "audio_stage a w us (s, 0) = (s1, ec1)"
    by (cases "audio_stage a w us (s, 0)")
  have "filter P (trace (fst (audio_stage a w us (s, 0)))) = filter P (trace s)"
    using assms by (simp add: audio_stage_def run_driver_filter)
  moreover have "filter P (trace (fst (video_stage a w us (s1, ec1)))) = filter P (trace s1)"
    using assms by (simp add: video_stage_def run_driver_filter)
  ultimately show ?thesis using a by (simp add: download_stage_def)
qed

lemma download_stage_logfile:
  "logfile_path (fst (download_stage a w us s)) = logfile_path s"
proof -
  obtain s1 ec1 where a: "audio_stage a w us (s, 0) = (s1, ec1)"
    by (cases "audio_stage a w us (s, 0)")
  have "logfile_path (fst (audio_stage a w us (s, 0))) = logfile_path s"
    by (simp add: audio_stage_def)
  moreover have "logfile_path (fst (video_stage a w us (s1, ec1))) = logfile_path s1"
    by (simp add: video_stage_def)
  ultimately show ?thesis using a by (simp add: download_stage_def)
qed

section \<open>The summary and the exit\<close>

lemma emit_lines_fields [simp]:
  "counter_done (foldl (\<lambda>st l. emit (Stdout l) st) s ls) = counter_done s"
  "counter_failed (foldl (\<lambda>st l. emit (Stdout l) st) s ls) = counter_failed s"
  "logfile_path (foldl (\<lambda>st l. emit (Stdout l) st) s ls) = logfile_path s"
  "trace (foldl (\<lambda>st l. emit (Stdout l) st) s ls) = trace s @ map Stdout ls"
  by (induction ls arbitrary: s) simp_all

lemma print_non_main_threads_fields [simp]:
  "counter_done (print_non_main_threads w s) = counter_done s"
  "counter_failed (print_non_main_threads w s) = counter_failed s"
  "logfile_path (print_non_main_threads w s) = logfile_path s"
  "trace (print_non_main_threads w s) = trace s @ thread_report w"
  by (simp_all add: print_non_main_threads_def thread_report_def)

lemma thread_report_filter: "\<forall>t. \<not> P (Stdout t) \<Longrightarrow> filter P (thread_report w) = []"
  by (auto simp: thread_report_def filter_empty_conv)

lemma finish_exit_status: "exit_status (fst (finish a w (s, ec))) = ec"
  by (simp add: finish_def Let_def)

lemma finish_counters:
  "counter_done (snd (finish a w (s, ec))) = counter_done s"
  "counter_failed (snd (finish a w (s, ec))) = counter_failed s"
  by (simp_all add: finish_def Let_def)

lemma finish_filter:
  "\<forall>p t. \<not> P (Append p t) \<Longrightarrow> \<forall>t. \<not> P (Stdout t) \<Longrightarrow>
   filter P (trace (snd (finish a w (s, ec)))) = filter P (trace s)"
  by (simp add: finish_def Let_def thread_report_filter write_log_no_append)

lemma finish_summary:
  "Stdout (summary_msg (counter_done s) (counter_failed s))
     \<in> set (trace (snd (finish a w (s, ec))))"
  by (simp add: finish_def Let_def write_log_trace)

lemma finish_logfile: "logfile_path (snd (finish a w (s, ec))) = logfile_path s"
  by (simp add: finish_def Let_def)

section \<open>The update check\<close>

lemma auto_update_yt_dlp_fields:
  "counter_done (snd (auto_update_yt_dlp e u w s)) = counter_done s"
  "counter_failed (snd (auto_update_yt_dlp e u w s)) = counter_failed s"
  "counter_total (snd (auto_update_yt_dlp e u w s)) = counter_total s"
  "logfile_path (snd (auto_update_yt_dlp e u w s)) = logfile_path s"
  "log_attempts (snd (auto_update_yt_dlp e u w s)) = log_attempts s"
  by (simp_all add: auto_update_yt_dlp_def Let_def split: pip_outcome.splits option.splits)

lemma auto_update_yt_dlp_filter:
  "\<forall>t. \<not> P (Stdout t) \<Longrightarrow> \<forall>t. \<not> P (Stderr t) \<Longrightarrow> \<not> P Execvpe \<Longrightarrow>
   filter P (trace (snd (auto_update_yt_dlp e u w s))) = filter P (trace s)"
  by (simp add: auto_update_yt_dlp_def Let_def split: pip_outcome.splits option.splits)

lemma update_phase_fields [simp]:
  "counter_done (update_phase a w) = 0"
  "counter_failed (update_phase a w) = 0"
  "counter_total (update_phase a w) = 0"
  "logfile_path (update_phase a w) = None"
  "log_attempts (update_phase a w) = 0"
  by (simp_all add: update_phase_def Let_def after_exec_def auto_update_yt_dlp_fields)
     (simp_all add: init_state_def)

lemma update_phase_filter:
  "\<forall>t. \<not> P (Stdout t) \<Longrightarrow> \<forall>t. \<not> P (Stderr t) \<Longrightarrow> \<not> P Execvpe \<Longrightarrow>
   filter P (trace (update_phase a w)) = []"
  by (simp add: update_phase_def Let_def after_exec_def auto_update_yt_dlp_filter)
     (simp add: init_state_def)

lemma run_main_body: "run a w = main_body a w (update_phase a w)"
proof (cases "fst (auto_update_yt_dlp (args_auto_update a) (ytdlp_updated w) w init_state)")
  case True
  have "main a w True s = main_body a w s" for s
    by (subst main.simps) (simp add: auto_update_yt_dlp_def)
  then show ?thesis using True
    by (simp add: run_def update_phase_def Let_def main.simps [of a w "ytdlp_updated w"])
next
  case False
  then show ?thesis
    by (simp add: run_def update_phase_def Let_def main.simps [of a w "ytdlp_updated w"])
qed


section \<open>Startup\<close>

lemma read_links_from_file_Inr:
  "read_links_from_file w p s = (Inr ls, s1) \<Longrightarrow> s1 = s"
  by (auto simp: read_links_from_file_def split: open_result.splits)

lemma file_urls_Inr: "file_urls a w s = (Inr ls, s1) \<Longrightarrow> s1 = s"
  by (auto simp: file_urls_def split: option.splits if_splits dest: read_links_from_file_Inr)

lemma collect_urls_Inr: "collect_urls a w s = (Inr us, s1) \<Longrightarrow> s1 = s"
  by (auto simp: collect_urls_def Let_def split: prod.splits sum.splits dest: file_urls_Inr)

lemma startup_Inr:
  assumes "startup a w s0 = (Inr us, s)"
  shows "collect_urls a w s0 = (Inr us, s0) \<and> us \<noteq> []
       \<and> mkdir_error w (video_dir a) = None \<and> mkdir_error w (music_dir a) = None
       \<and> s = begin_session a w us
               (emit (Mkdir (music_dir a) True True)
                  (emit (Mkdir (video_dir a) True True) (s0\<lparr>counter_total := length us\<rparr>)))"
proof -
  obtain r s1 where c: "collect_urls a w s0 = (r, s1)"
    by (cases "collect_urls a w s0")
  from assms c obtain us' where r: "r = Inr us'"
    by (cases r) (auto simp: startup_def)
  have s1: "s1 = s0" using c r collect_urls_Inr by blast
  from assms c r have ne: "us' \<noteq> []"
    by (auto simp: startup_def split: if_splits)
  from assms c r ne s1 show ?thesis
    by (auto simp: startup_def ensure_dirs_def Let_def split: option.splits if_splits)
qed

lemma choose_logfile_fields [simp]:
  "counter_done (choose_logfile a s) = counter_done s"
  "counter_failed (choose_logfile a s) = counter_failed s"
  "counter_total (choose_logfile a s) = counter_total s"
  "trace (choose_logfile a s) = trace s"
  "log_attempts (choose_logfile a s) = log_attempts s"
  by (simp_all add: choose_logfile_def)

lemma want_some: "want_video a \<or> want_audio a"
  by (auto simp: want_video_def want_audio_def)

lemma choose_logfile_path:
  "logfile_path (choose_logfile a s) =
     Some (Child (if want_video a then video_dir a else music_dir a) log_name)"
  using want_some [of a] by (auto simp: choose_logfile_def)

lemma begin_session_fields:
  "counter_done (begin_session a w us s0) = counter_done s0"
  "counter_failed (begin_session a w us s0) = counter_failed s0"
  "counter_total (begin_session a w us s0) = counter_total s0"
  "logfile_path (begin_session a w us s0) =
     Some (Child (if want_video a then video_dir a else music_dir a) log_name)"
  by (simp_all add: begin_session_def Let_def choose_logfile_path)

lemma begin_session_filter:
  "\<forall>p t. \<not> P (Append p t) \<Longrightarrow> \<forall>t. \<not> P (Stderr t) \<Longrightarrow>
   filter P (trace (begin_session a w us s0)) = filter P (trace s0)"
  by (simp add: begin_session_def Let_def write_log_no_append)

lemma digits_last: "digits n \<noteq> [] \<and> \<not> isspace (last (digits n))"
proof -
  have "n < 10 \<Longrightarrow> \<not> isspace (48 + n)" for n :: nat
    by (simp add: isspace_def)
  then show ?thesis
    by (subst (1 2) digits.simps) simp
qed

lemma rstrip_digits: "rstrip (t @ digits n) = t @ digits n"
proof -
  have "t @ digits n = (t @ butlast (digits n)) @ [last (digits n)]"
    using digits_last [of n] by simp
  then show ?thesis using digits_last [of n] rstrip_snoc_nonspace by metis
qed

lemma rstrip_session_header: "rstrip (session_header w) = session_header w"
proof -
  have "session_header w = ([10] @ str ''=== Session '' @ now w @ str '' =='') @ [61]"
    by (simp add: session_header_def str_def)
  moreover have "\<not> isspace 61" by (simp add: isspace_def)
  ultimately show ?thesis using rstrip_snoc_nonspace by metis
qed

lemma begin_session_appends:
  "filter is_append (trace (begin_session a w us s0)) =
     filter is_append (trace s0)
       @ (if log_append_ok w (log_attempts s0)
          then [Append (Child (if want_video a then video_dir a else music_dir a) log_name)
                  (session_header w @ [10])] else [])
       @ (if log_append_ok w (log_attempts s0 + 1)
          then [Append (Child (if want_video a then video_dir a else music_dir a) log_name)
                  (str ''URLs: '' @ digits (length us) @ [10])] else [])"
  by (simp add: begin_session_def Let_def write_log_trace write_log_attempts
        choose_logfile_path rstrip_session_header
        rstrip_digits [of "str ''URLs: ''", simplified])

section \<open>Proofs: the whole run\<close>

lemma run_reaching:
  assumes "startup a w (update_phase a w) = (Inr us, s)"
  shows "run a w = finish a w (download_stage a w us s)"
  using assms by (simp add: run_main_body main_body_def)

lemma reached_state:
  assumes "startup a w (update_phase a w) = (Inr us, s)"
  shows "counter_done s = 0" "counter_failed s = 0" "counter_total s = length us"
    "logfile_path s = Some (Child (if want_video a then video_dir a else music_dir a) log_name)"
    "filter is_download (trace s) = []"
    "filter is_mkdir (trace s) = [Mkdir (video_dir a) True True, Mkdir (music_dir a) True True]"
  using startup_Inr [OF assms]
  by (simp_all add: begin_session_fields begin_session_filter update_phase_filter)

lemma run_done:
  assumes "startup a w (update_phase a w) = (Inr us, s)"
  shows "counter_done (snd (run a w)) =
           (if want_audio a then finished_count (audio_run a w us) else 0)
           + (if want_video a then finished_count (video_run a w us) else 0)"
proof -
  obtain s' ec where d: "download_stage a w us s = (s', ec)"
    by (cases "download_stage a w us s")
  have r: "run a w = finish a w (s', ec)"
    using run_reaching [OF assms] d by simp
  have "counter_done s' =
           (if want_audio a then finished_count (audio_run a w us) else 0)
           + (if want_video a then finished_count (video_run a w us) else 0)"
    using download_stage_done [of a w us s] d reached_state(1) [OF assms] by simp
  then show ?thesis by (simp add: r finish_counters)
qed

lemma run_summary:
  assumes "startup a w (update_phase a w) = (Inr us, s)"
  shows "Stdout (summary_msg (counter_done (snd (run a w))) (counter_failed (snd (run a w))))
           \<in> set (trace (snd (run a w)))"
proof -
  obtain s' ec where d: "download_stage a w us s = (s', ec)"
    by (cases "download_stage a w us s")
  have r: "run a w = finish a w (s', ec)"
    using run_reaching [OF assms] d by simp
  show ?thesis using finish_summary [of s' a w ec] by (simp add: r finish_counters)
qed

lemma no_urls_startup:
  assumes "args_file a = None \<or> args_file a = Some []" and "args_urls a = []"
  shows "startup a w s = (Inl (Exit 2), emit PrintHelp (emit (Stderr no_links_msg) s))"
  using assms by (auto simp: startup_def collect_urls_def file_urls_def dedupe_def)

lemma startup_logfile:
  "startup a w s0 = (Inr us, s1) \<Longrightarrow> logfile_path s1 \<noteq> None"
  using startup_Inr [of a w s0 us s1] by (simp add: begin_session_fields)

lemma run_mkdirs:
  assumes "startup a w (update_phase a w) = (Inr us, s)"
  shows "filter is_mkdir (trace (snd (run a w)))
           = [Mkdir (video_dir a) True True, Mkdir (music_dir a) True True]"
proof -
  obtain s' ec where d: "download_stage a w us s = (s', ec)"
    by (cases "download_stage a w us s")
  have "filter is_mkdir (trace s') = filter is_mkdir (trace s)"
    using download_stage_filter [of is_mkdir a w us s] d by simp
  then show ?thesis
    using run_reaching [OF assms] d reached_state(6) [OF assms] by (simp add: finish_filter)
qed

lemma run_logfile:
  assumes "startup a w (update_phase a w) = (Inr us, s)"
  shows "logfile_path (snd (run a w)) = logfile_path s"
proof -
  obtain s' ec where d: "download_stage a w us s = (s', ec)"
    by (cases "download_stage a w us s")
  show ?thesis
    using run_reaching [OF assms] d download_stage_logfile [of a w us s]
    by (simp add: finish_logfile)
qed

section \<open>Proofs: the example runs\<close>

lemma demo_startup_fst:
  assumes "args_file a = Some (str ''links.txt'')" and "args_urls a = []"
    and "open_file w (Path (str ''links.txt'')) = Opened example_file"
    and "mkdir_error w = (\<lambda>p. None)"
  shows "fst (startup a w s0) = Inr [str ''http://x'', str ''http://y'']"
proof -
  have "collect_urls a w s0 = (Inr [str ''http://x'', str ''http://y''], s0)"
    using assms(1,2) example_read [OF assms(3), of s0]
    by (simp add: collect_urls_def file_urls_def) (simp add: dedupe_def str_def)
  then show ?thesis
    using assms(4) by (simp add: startup_def ensure_dirs_def)
qed

lemma demo_startup:
  assumes "args_file a = Some (str ''links.txt'')" and "args_urls a = []"
    and "open_file w (Path (str ''links.txt'')) = Opened example_file"
    and "mkdir_error w = (\<lambda>p. None)"
  shows "startup a w s0 = (Inr [str ''http://x'', str ''http://y''], snd (startup a w s0))"
  using demo_startup_fst [OF assms, of s0] by (metis prod.collapse)

lemma demo_world_fields:
  "mkdir_error demo_world = (\<lambda>p. None)"
  "ydl_run demo_world = (\<lambda>k opts us. finished_each us)"
  "log_append_ok demo_world = (\<lambda>n. True)"
  "now demo_world = str ''2024-01-01 12:00:00''"
  by (simp_all add: demo_world_def)

lemma failing_world_fields:
  "open_file failing_world (Path (str ''links.txt'')) = Opened example_file"
  "mkdir_error failing_world = (\<lambda>p. None)"
  "ydl_run failing_world = (\<lambda>k opts us.
        if k = Audio then \<lparr>hooks = [], result = Raised (str ''boom'')\<rparr>
        else finished_each us)"
  by (simp_all add: failing_world_def demo_world_def)

lemma demo_args_fields:
  "args_file demo_args = Some (str ''links.txt'')" "args_urls demo_args = []"
  "want_audio demo_args" "want_video demo_args"
  by (simp_all add: demo_args_def want_audio_def want_video_def)

lemma audio_only_args_fields:
  "args_file audio_only_args = Some (str ''links.txt'')" "args_urls audio_only_args = []"
  "want_audio audio_only_args" "\<not> want_video audio_only_args"
  by (simp_all add: audio_only_args_def demo_args_def want_audio_def want_video_def)

lemma finished_each_eval:
  "finished_count (finished_each us) = length us" "\<not> call_failed (finished_each us)"
  "result (finished_each us) = Returned 0"
  by (simp_all add: finished_count_def finished_each_def call_failed_def comp_def)

lemma demo_reaches:
  "startup demo_args demo_world (update_phase demo_args demo_world)
      = (Inr [str ''http://x'', str ''http://y''],
         snd (startup demo_args demo_world (update_phase demo_args demo_world)))"
  by (rule demo_startup) (simp_all add: demo_args_fields demo_world_fields demo_open)

lemma failing_reaches:
  "startup demo_args failing_world (update_phase demo_args failing_world)
      = (Inr [str ''http://x'', str ''http://y''],
         snd (startup demo_args failing_world (update_phase demo_args failing_world)))"
  by (rule demo_startup) (simp_all add: demo_args_fields failing_world_fields)

lemma audio_only_reaches:
  "startup audio_only_args demo_world (update_phase audio_only_args demo_world)
      = (Inr [str ''http://x'', str ''http://y''],
         snd (startup audio_only_args demo_world (update_phase audio_only_args demo_world)))"
  by (rule demo_startup) (simp_all add: audio_only_args_fields demo_world_fields demo_open)

lemma demo_done: "counter_done (snd (run demo_args demo_world)) = 4"
  using run_done [OF demo_reaches]
  by (simp add: demo_args_fields audio_run_def video_run_def demo_world_fields finished_each_eval)

lemma spaced_line:
  "finished_msg (Suc 0) 2 (resolved_filename spaced_hook)
   = str ''(1/2) '' @ [10003] @ str '' Finished: a ''"
  by (simp add: finished_msg_def spaced_hook_def resolved_filename_def digits.simps str_def)

lemma spaced_line_rstrip:
  "rstrip (str ''(1/2) '' @ 10003 # str '' Finished: a '')
     = str ''(1/2) '' @ 10003 # str '' Finished: a''"
  by (simp add: rstrip_def str_def isspace_def)

section \<open>The properties of a run\<close>

text \<open>
  C3. For every run that reaches the download stage, the exit status of the process is
  1 when a driver call that was made (audio when audio is wanted, video when video is
  wanted) returned a non-zero code or raised, and 0 otherwise.
\<close>

theorem exit_code_one_iff_call_failed:
  assumes "startup a w (update_phase a w) = (Inr us, s)"
  shows "exit_status (fst (run a w)) =
           (if (want_audio a \<and> call_failed (audio_run a w us))
               \<or> (want_video a \<and> call_failed (video_run a w us)) then 1 else 0)"
proof -
  obtain s' ec where d: "download_stage a w us s = (s', ec)"
    by (cases "download_stage a w us s")
  have "exit_status (fst (run a w)) = ec"
    using run_reaching [OF assms] d finish_exit_status [of a w s' ec] by simp
  then show ?thesis using download_stage_exit_code [of a w us s] d by simp
qed

theorem exit_code_one_iff_call_failed_witness:
  "fst (startup demo_args failing_world (update_phase demo_args failing_world))
     = Inr [str ''http://x'', str ''http://y'']
   \<and> call_failed (audio_run demo_args failing_world [str ''http://x'', str ''http://y''])
   \<and> exit_status (fst (run demo_args failing_world)) = 1
   \<and> fst (startup demo_args demo_world (update_phase demo_args demo_world))
     = Inr [str ''http://x'', str ''http://y'']
   \<and> \<not> call_failed (audio_run demo_args demo_world [str ''http://x'', str ''http://y''])
   \<and> \<not> call_failed (video_run demo_args demo_world [str ''http://x'', str ''http://y''])
   \<and> exit_status (fst (run demo_args demo_world)) = 0"
proof -
  have h1: "startup demo_args failing_world (update_phase demo_args failing_world)
      = (Inr [str ''http://x'', str ''http://y''],
         snd (startup demo_args failing_world (update_phase demo_args failing_world)))"
    by (rule demo_startup) (simp_all add: demo_args_fields failing_world_fields)
  have h2: "startup demo_args demo_world (update_phase demo_args demo_world)
      = (Inr [str ''http://x'', str ''http://y''],
         snd (startup demo_args demo_world (update_phase demo_args demo_world)))"
    by (rule demo_startup) (simp_all add: demo_args_fields demo_world_fields demo_open)
  have f: "call_failed (audio_run demo_args failing_world [str ''http://x'', str ''http://y''])"
    by (simp add: audio_run_def failing_world_fields call_failed_def)
  have g: "\<not> call_failed (audio_run demo_args demo_world [str ''http://x'', str ''http://y''])"
    "\<not> call_failed (video_run demo_args demo_world [str ''http://x'', str ''http://y''])"
    by (simp_all add: audio_run_def video_run_def demo_world_fields finished_each_eval)
  have s1: "fst (startup demo_args failing_world (update_phase demo_args failing_world))
     = Inr [str ''http://x'', str ''http://y'']"
    by (rule demo_startup_fst) (simp_all add: demo_args_fields failing_world_fields)
  have s2: "fst (startup demo_args demo_world (update_phase demo_args demo_world))
     = Inr [str ''http://x'', str ''http://y'']"
    by (rule demo_startup_fst) (simp_all add: demo_args_fields demo_world_fields demo_open)
  show ?thesis
    using exit_code_one_iff_call_failed [OF h1] exit_code_one_iff_call_failed [OF h2] s1 s2 f g
    by (simp add: demo_args_fields)
qed

text \<open>
  C4. For every run that reaches the download stage, the \<open>done\<close> counter reported by the
  summary is the number of \<open>finished\<close> signals of the audio pass plus the number of
  those of the video pass: it is not reset between the passes. So there is a run with
  two URLs, both kinds requested and both calls returning 0 whose summary reports 4,
  not 2.
\<close>

theorem done_counts_finished_signals:
  assumes "startup a w (update_phase a w) = (Inr us, s)"
  shows "counter_done (snd (run a w)) =
           (if want_audio a then finished_count (audio_run a w us) else 0)
           + (if want_video a then finished_count (video_run a w us) else 0)
       \<and> Stdout (summary_msg (counter_done (snd (run a w))) (counter_failed (snd (run a w))))
           \<in> set (trace (snd (run a w)))
       \<and> (\<exists>a' w' us' s'.
             startup a' w' (update_phase a' w') = (Inr us', s') \<and> length us' = 2
             \<and> want_audio a' \<and> want_video a'
             \<and> result (audio_run a' w' us') = Returned 0
             \<and> result (video_run a' w' us') = Returned 0
             \<and> counter_done (snd (run a' w')) = 4)"
proof -
  have "startup demo_args demo_world (update_phase demo_args demo_world)
      = (Inr [str ''http://x'', str ''http://y''],
         snd (startup demo_args demo_world (update_phase demo_args demo_world)))
    \<and> length [str ''http://x'', str ''http://y''] = 2
    \<and> want_audio demo_args \<and> want_video demo_args
    \<and> result (audio_run demo_args demo_world [str ''http://x'', str ''http://y'']) = Returned 0
    \<and> result (video_run demo_args demo_world [str ''http://x'', str ''http://y'']) = Returned 0
    \<and> counter_done (snd (run demo_args demo_world)) = 4"
    using demo_reaches demo_done
    by (simp add: demo_args_fields audio_run_def video_run_def demo_world_fields
          finished_each_eval)
  then have "\<exists>a' w' us' s'.
             startup a' w' (update_phase a' w') = (Inr us', s') \<and> length us' = 2
             \<and> want_audio a' \<and> want_video a'
             \<and> result (audio_run a' w' us') = Returned 0
             \<and> result (video_run a' w' us') = Returned 0
             \<and> counter_done (snd (run a' w')) = 4"
    by blast
  then show ?thesis using run_done [OF assms] run_summary [OF assms] by blast
qed

theorem done_counts_finished_signals_witness:
  "fst (startup demo_args demo_world (update_phase demo_args demo_world))
     = Inr [str ''http://x'', str ''http://y'']
   \<and> finished_count (audio_run demo_args demo_world [str ''http://x'', str ''http://y'']) = 2
   \<and> finished_count (video_run demo_args demo_world [str ''http://x'', str ''http://y'']) = 2
   \<and> counter_done (snd (run demo_args demo_world)) = 4"
proof -
  have s: "fst (startup demo_args demo_world (update_phase demo_args demo_world))
     = Inr [str ''http://x'', str ''http://y'']"
    by (rule demo_startup_fst) (simp_all add: demo_args_fields demo_world_fields demo_open)
  have c: "finished_count (audio_run demo_args demo_world [str ''http://x'', str ''http://y'']) = 2"
    "finished_count (video_run demo_args demo_world [str ''http://x'', str ''http://y'']) = 2"
    by (simp_all add: audio_run_def video_run_def demo_world_fields finished_each_eval)
  show ?thesis
    using done_counts_finished_signals [OF demo_reaches] s c
    by (simp add: demo_args_fields)
qed

text \<open>
  C5. When both kinds are requested, a run that reaches the download stage calls the
  driver exactly twice, for audio and then for video, with the same URL list, whatever
  the audio call does; and when the audio call fails or raises, the exit status is 1
  and \<open>failed\<close> ends as 1 plus what the video call adds.
\<close>

theorem audio_then_video:
  assumes "startup a w (update_phase a w) = (Inr us, s)" and "want_audio a" and "want_video a"
  shows "filter is_download (trace (snd (run a w))) =
           [Download Audio (build_audio_opts (music_dir a) (args_allow_playlists a)) us,
            Download Video (build_video_opts (video_dir a) (args_allow_playlists a)) us]
       \<and> (call_failed (audio_run a w us) \<longrightarrow>
            exit_status (fst (run a w)) = 1
            \<and> counter_failed (snd (run a w))
                = 1 + (if call_failed (video_run a w us) then 1 else 0))"
proof -
  obtain s' ec where d: "download_stage a w us s = (s', ec)"
    by (cases "download_stage a w us s")
  have r: "run a w = finish a w (s', ec)"
    using run_reaching [OF assms(1)] d by simp
  have tr: "filter is_download (trace s') =
           [Download Audio (build_audio_opts (music_dir a) (args_allow_playlists a)) us,
            Download Video (build_video_opts (video_dir a) (args_allow_playlists a)) us]"
    using download_stage_downloads [of a w us s] d reached_state(5) [OF assms(1)] assms(2,3)
    by simp
  have f: "counter_failed s' = (if call_failed (audio_run a w us) then 1 else 0)
             + (if call_failed (video_run a w us) then 1 else 0)"
    using download_stage_failed [of a w us s] d reached_state(2) [OF assms(1)] assms(2,3)
    by simp
  have e: "ec = (if call_failed (audio_run a w us) \<or> call_failed (video_run a w us)
                 then 1 else 0)"
    using download_stage_exit_code [of a w us s] d assms(2,3) by simp
  show ?thesis
    using tr f e by (simp add: r finish_filter finish_counters finish_exit_status)
qed

theorem audio_then_video_witness:
  "fst (startup demo_args failing_world (update_phase demo_args failing_world))
     = Inr [str ''http://x'', str ''http://y'']
   \<and> want_audio demo_args \<and> want_video demo_args
   \<and> result (audio_run demo_args failing_world [str ''http://x'', str ''http://y''])
       = Raised (str ''boom'')
   \<and> filter is_download (trace (snd (run demo_args failing_world))) =
        [Download Audio (build_audio_opts (music_dir demo_args) False)
           [str ''http://x'', str ''http://y''],
         Download Video (build_video_opts (video_dir demo_args) False)
           [str ''http://x'', str ''http://y'']]
   \<and> exit_status (fst (run demo_args failing_world)) = 1
   \<and> counter_failed (snd (run demo_args failing_world)) = 1"
proof -
  have s: "fst (startup demo_args failing_world (update_phase demo_args failing_world))
     = Inr [str ''http://x'', str ''http://y'']"
    by (rule demo_startup_fst) (simp_all add: demo_args_fields failing_world_fields)
  have r: "result (audio_run demo_args failing_world [str ''http://x'', str ''http://y''])
       = Raised (str ''boom'')"
    by (simp add: audio_run_def failing_world_fields)
  have f: "call_failed (audio_run demo_args failing_world [str ''http://x'', str ''http://y''])"
    "\<not> call_failed (video_run demo_args failing_world [str ''http://x'', str ''http://y''])"
    by (simp_all add: audio_run_def video_run_def failing_world_fields call_failed_def
          finished_each_def)
  have p: "args_allow_playlists demo_args = False" by (simp add: demo_args_def)
  show ?thesis
    using audio_then_video [OF failing_reaches demo_args_fields(3) demo_args_fields(4)] s r f p
    by (simp add: demo_args_fields)
qed

text \<open>
  C6. With no link file (\<open>args.file\<close> is \<open>None\<close> or the empty string) and no
  positional URL the run ends right after the update
  check: the message and the usage help are printed and the process exits with status
  2; no directory is created, nothing is logged and no driver call is made.
\<close>

theorem no_urls_exit_2:
  assumes "args_file a = None \<or> args_file a = Some []" and "args_urls a = []"
  shows "run a w = (Exit 2, emit PrintHelp (emit (Stderr no_links_msg) (update_phase a w)))
       \<and> exit_status (fst (run a w)) = 2
       \<and> filter is_download (trace (snd (run a w))) = []
       \<and> filter is_mkdir (trace (snd (run a w))) = []
       \<and> filter is_append (trace (snd (run a w))) = []"
  by (simp add: run_main_body main_body_def no_urls_startup [OF assms] update_phase_filter)

theorem no_urls_exit_2_witness:
  "args_file no_file_args = None \<and> args_urls no_file_args = []
   \<and> fst (run no_file_args demo_world) = Exit 2
   \<and> trace (snd (run no_file_args demo_world)) = [Stderr no_links_msg, PrintHelp]"
proof -
  have a: "args_file no_file_args = None" "args_urls no_file_args = []"
    by (simp_all add: no_file_args_def demo_args_def)
  have u: "update_phase no_file_args demo_world = init_state"
    by (simp add: update_phase_def auto_update_yt_dlp_def no_file_args_def demo_args_def)
  have b: "args_file no_file_args = None \<or> args_file no_file_args = Some []"
    using a(1) by simp
  show ?thesis
    using no_urls_exit_2 [OF b a(2), of demo_world] a by (simp add: u init_state_def)
qed

text \<open>
  C7. With a link file path that is given (a non-empty string) and does not exist, the
  run ends right after the update check: the error message goes to the error stream
  and the process exits with status 1; no driver call is made.
\<close>

theorem missing_link_file_exit_1:
  assumes "args_file a = Some f" and "f \<noteq> []" and "open_file w (Path f) = FileNotFoundError"
  shows "run a w = (Exit 1, emit (Stderr (str ''[!] Bestand niet gevonden: '' @ fspath w (Path f)))
                              (update_phase a w))
       \<and> exit_status (fst (run a w)) = 1
       \<and> filter is_download (trace (snd (run a w))) = []"
proof -
  have "startup a w s = (Inl (Exit 1),
          emit (Stderr (str ''[!] Bestand niet gevonden: '' @ fspath w (Path f))) s)" for s
    using assms
    by (simp add: startup_def collect_urls_def file_urls_def read_links_from_file_def)
  then show ?thesis
    by (simp add: run_main_body main_body_def update_phase_filter)
qed

theorem missing_link_file_exit_1_witness:
  "args_file missing_args = Some (str ''missing.txt'') \<and> str ''missing.txt'' \<noteq> []
   \<and> open_file demo_world (Path (str ''missing.txt'')) = FileNotFoundError
   \<and> fst (run missing_args demo_world) = Exit 1
   \<and> trace (snd (run missing_args demo_world))
       = [Stderr (str ''[!] Bestand niet gevonden: missing.txt'')]"
proof -
  have a: "args_file missing_args = Some (str ''missing.txt'')"
    by (simp add: missing_args_def)
  have n: "str ''missing.txt'' \<noteq> []" by (simp add: str_def)
  have o: "open_file demo_world (Path (str ''missing.txt'')) = FileNotFoundError"
    by (simp add: demo_world_def str_def)
  have u: "update_phase missing_args demo_world = init_state"
    by (simp add: update_phase_def auto_update_yt_dlp_def missing_args_def demo_args_def)
  have m: "str ''[!] Bestand niet gevonden: '' @ fspath demo_world (Path (str ''missing.txt''))
         = str ''[!] Bestand niet gevonden: missing.txt''"
    by (simp add: demo_world_def str_def)
  show ?thesis
    using missing_link_file_exit_1 [OF a n o] a n o by (simp add: u init_state_def m)
qed

text \<open>
  C8, as amended. For a progress dictionary whose status is \<open>finished\<close>, the Progress
  Aggregator adds one to \<open>done\<close>, leaves \<open>failed\<close> and \<open>total\<close> alone, prints the
  line made of the new \<open>done\<close>, the total and the resolved file name, and, when the
  append succeeds, appends that line with its trailing whitespace removed, followed
  by a newline, to the log file; when the append raises, nothing is appended and
  nothing else differs. A dictionary with any other status changes nothing. The hook
  never changes the log path, and \<open>main\<close> has set it whenever the download stage is
  reached.
\<close>

theorem on_progress_finished:
  "(status d = Some (str ''finished'') \<longrightarrow>
      counter_done (on_progress w d s) = counter_done s + 1
      \<and> counter_failed (on_progress w d s) = counter_failed s
      \<and> counter_total (on_progress w d s) = counter_total s
      \<and> trace (on_progress w d s) =
          trace s
          @ [Stdout (finished_msg (counter_done s + 1) (counter_total s) (resolved_filename d))]
          @ (case logfile_path s of
               None \<Rightarrow> []
             | Some p \<Rightarrow>
                 if log_append_ok w (log_attempts s)
                 then [Append p
                         (rstrip (finished_msg (counter_done s + 1) (counter_total s)
                                   (resolved_filename d)) @ [10])]
                 else []))
   \<and> (status d \<noteq> Some (str ''finished'') \<longrightarrow> on_progress w d s = s)
   \<and> logfile_path (on_progress w d s) = logfile_path s
   \<and> (\<forall>a s0 us s1. startup a w s0 = (Inr us, s1) \<longrightarrow> logfile_path s1 \<noteq> None)"
proof (intro conjI impI allI)
  assume f: "status d = Some (str ''finished'')"
  show "counter_done (on_progress w d s) = counter_done s + 1"
    using f by (simp add: on_progress_done)
  show "counter_failed (on_progress w d s) = counter_failed s" by simp
  show "counter_total (on_progress w d s) = counter_total s" by simp
  show "trace (on_progress w d s) =
          trace s
          @ [Stdout (finished_msg (counter_done s + 1) (counter_total s) (resolved_filename d))]
          @ (case logfile_path s of
               None \<Rightarrow> []
             | Some p \<Rightarrow>
                 if log_append_ok w (log_attempts s)
                 then [Append p
                         (rstrip (finished_msg (counter_done s + 1) (counter_total s)
                                   (resolved_filename d)) @ [10])]
                 else [])"
    using f by (simp add: on_progress_def Let_def write_log_trace split: option.splits)
next
  assume "status d \<noteq> Some (str ''finished'')"
  then show "on_progress w d s = s" by (simp add: on_progress_def)
next
  show "logfile_path (on_progress w d s) = logfile_path s" by simp
next
  fix a s0 us s1
  assume "startup a w s0 = (Inr us, s1)"
  then show "logfile_path s1 \<noteq> None" by (rule startup_logfile)
qed

theorem on_progress_finished_witness:
  "status spaced_hook = Some (str ''finished'')
   \<and> counter_done (on_progress demo_world spaced_hook logged_state) = 1
   \<and> trace (on_progress demo_world spaced_hook logged_state)
       = [Stdout (str ''(1/2) '' @ [10003] @ str '' Finished: a ''),
          Append (Path (str ''log'')) (str ''(1/2) '' @ [10003] @ str '' Finished: a'' @ [10])]
   \<and> status waiting_hook \<noteq> Some (str ''finished'')
   \<and> on_progress demo_world waiting_hook logged_state = logged_state
   \<and> fst (startup demo_args demo_world init_state) = Inr [str ''http://x'', str ''http://y'']
   \<and> logfile_path (snd (startup demo_args demo_world init_state)) \<noteq> None"
proof -
  have f: "status spaced_hook = Some (str ''finished'')"
    by (simp add: spaced_hook_def)
  have n: "status waiting_hook \<noteq> Some (str ''finished'')"
    by (simp add: waiting_hook_def str_def)
  have s: "fst (startup demo_args demo_world init_state) = Inr [str ''http://x'', str ''http://y'']"
    by (rule demo_startup_fst) (simp_all add: demo_args_fields demo_world_fields demo_open)
  then have r: "startup demo_args demo_world init_state
      = (Inr [str ''http://x'', str ''http://y''], snd (startup demo_args demo_world init_state))"
    by (metis prod.collapse)
  have l: "logfile_path logged_state = Some (Path (str ''log''))" "trace logged_state = []"
    "counter_done logged_state = 0" "log_attempts logged_state = 0"
    "counter_total logged_state = 2"
    by (simp_all add: logged_state_def init_state_def)
  have t: "trace (on_progress demo_world spaced_hook logged_state)
       = [Stdout (str ''(1/2) '' @ [10003] @ str '' Finished: a ''),
          Append (Path (str ''log'')) (str ''(1/2) '' @ [10003] @ str '' Finished: a'' @ [10])]"
    using on_progress_finished [of spaced_hook demo_world logged_state] f
    by (simp add: l demo_world_fields spaced_line spaced_line_rstrip)
  show ?thesis
    using on_progress_finished [of spaced_hook demo_world logged_state]
      on_progress_finished [of waiting_hook demo_world logged_state] r f n s t
    by (simp add: l)
qed

text \<open>
  C8 as the claim words it, the printed line itself being appended, fails when the
  resolved file name ends in a blank: the line \<open>(1/2) ... Finished: a \<close> is printed and
  the log receives \<open>(1/2) ... Finished: a\<close>.
\<close>

theorem on_progress_logs_line_counterexample:
  "status spaced_hook = Some (str ''finished'')
   \<and> logfile_path logged_state = Some (Path (str ''log''))
   \<and> log_append_ok demo_world (log_attempts logged_state)
   \<and> trace logged_state = []
   \<and> trace (on_progress demo_world spaced_hook logged_state)
       = [Stdout (str ''(1/2) '' @ [10003] @ str '' Finished: a ''),
          Append (Path (str ''log'')) (str ''(1/2) '' @ [10003] @ str '' Finished: a'' @ [10])]
   \<and> Append (Path (str ''log'')) (str ''(1/2) '' @ [10003] @ str '' Finished: a '' @ [10])
       \<notin> set (trace (on_progress demo_world spaced_hook logged_state))"
proof -
  have t: "trace (on_progress demo_world spaced_hook logged_state)
       = [Stdout (str ''(1/2) '' @ [10003] @ str '' Finished: a ''),
          Append (Path (str ''log'')) (str ''(1/2) '' @ [10003] @ str '' Finished: a'' @ [10])]"
    by (simp add: on_progress_def Let_def write_log_trace finished_msg_def spaced_hook_def
          logged_state_def init_state_def resolved_filename_def demo_world_fields digits.simps)
       (simp add: rstrip_def str_def isspace_def)
  have "Append (Path (str ''log'')) (str ''(1/2) '' @ [10003] @ str '' Finished: a '' @ [10])
       \<notin> set [Stdout (str ''(1/2) '' @ [10003] @ str '' Finished: a ''),
          Append (Path (str ''log'')) (str ''(1/2) '' @ [10003] @ str '' Finished: a'' @ [10])]"
    by (simp add: str_def)
  then show ?thesis
    using t by (simp add: spaced_hook_def logged_state_def init_state_def demo_world_fields)
qed

text \<open>
  C9. In a run that reaches the download stage the log path is \<open>download_log.txt\<close>
  under the video directory when video is wanted and under the music directory
  otherwise, it stays so to the end of the run, and video is not wanted exactly when
  audio alone was requested. The
  appends made before the download stage are, each if its write succeeds, the session
  header with the time stamp and the URL count, to that file.
\<close>

theorem logfile_location:
  assumes "startup a w (update_phase a w) = (Inr us, s)"
  shows "logfile_path s
           = Some (Child (if want_video a then video_dir a else music_dir a)
                     (str ''download_log.txt''))
       \<and> logfile_path (snd (run a w)) = logfile_path s
       \<and> (\<not> want_video a) = (args_audio a \<and> \<not> args_video a)
       \<and> filter is_append (trace s) =
           (if log_append_ok w 0
            then [Append (Child (if want_video a then video_dir a else music_dir a)
                            (str ''download_log.txt''))
                    ([10] @ str ''=== Session '' @ now w @ str '' ==='' @ [10])] else [])
           @ (if log_append_ok w 1
              then [Append (Child (if want_video a then video_dir a else music_dir a)
                              (str ''download_log.txt''))
                      (str ''URLs: '' @ digits (length us) @ [10])] else [])"
proof -
  have "filter is_append (trace (update_phase a w)) = []"
    by (simp add: update_phase_filter)
  then show ?thesis
    using startup_Inr [OF assms] run_logfile [OF assms]
    by (auto simp: begin_session_fields begin_session_appends log_name_def session_header_def
          want_video_def)
qed

theorem logfile_location_witness:
  "fst (startup audio_only_args demo_world (update_phase audio_only_args demo_world))
     = Inr [str ''http://x'', str ''http://y'']
   \<and> \<not> want_video audio_only_args
   \<and> logfile_path (snd (startup audio_only_args demo_world
                           (update_phase audio_only_args demo_world)))
       = Some (Child (music_dir audio_only_args) (str ''download_log.txt''))
   \<and> fst (startup demo_args demo_world (update_phase demo_args demo_world))
     = Inr [str ''http://x'', str ''http://y'']
   \<and> want_video demo_args \<and> want_audio demo_args
   \<and> logfile_path (snd (startup demo_args demo_world (update_phase demo_args demo_world)))
       = Some (Child (video_dir demo_args) (str ''download_log.txt''))
   \<and> filter is_append
        (trace (snd (startup demo_args demo_world (update_phase demo_args demo_world))))
       = [Append (Child (video_dir demo_args) (str ''download_log.txt''))
            ([10] @ str ''=== Session 2024-01-01 12:00:00 ==='' @ [10]),
          Append (Child (video_dir demo_args) (str ''download_log.txt''))
            (str ''URLs: 2'' @ [10])]"
proof -
  have s1: "fst (startup audio_only_args demo_world (update_phase audio_only_args demo_world))
     = Inr [str ''http://x'', str ''http://y'']"
    by (rule demo_startup_fst) (simp_all add: audio_only_args_fields demo_world_fields demo_open)
  have s2: "fst (startup demo_args demo_world (update_phase demo_args demo_world))
     = Inr [str ''http://x'', str ''http://y'']"
    by (rule demo_startup_fst) (simp_all add: demo_args_fields demo_world_fields demo_open)
  have d: "digits (Suc (Suc 0)) = [50]" by (simp add: digits.simps)
  show ?thesis
    using logfile_location [OF audio_only_reaches] logfile_location [OF demo_reaches] s1 s2
    by (simp add: audio_only_args_fields demo_args_fields demo_world_fields d)
       (simp add: str_def)
qed

text \<open>
  C10. In a run that reaches the download stage, \<open>mkdir(parents=True, exist_ok=True)\<close>
  has succeeded for the video directory and then for the music directory, whichever
  kinds were requested, and these are the only directories the run creates.
\<close>

theorem both_dirs_created:
  assumes "startup a w (update_phase a w) = (Inr us, s)"
  shows "filter is_mkdir (trace s)
           = [Mkdir (video_dir a) True True, Mkdir (music_dir a) True True]
       \<and> mkdir_error w (video_dir a) = None \<and> mkdir_error w (music_dir a) = None
       \<and> filter is_mkdir (trace (snd (run a w)))
           = [Mkdir (video_dir a) True True, Mkdir (music_dir a) True True]"
  using startup_Inr [OF assms] reached_state(6) [OF assms] run_mkdirs [OF assms] by simp

theorem both_dirs_created_witness:
  "fst (startup audio_only_args demo_world (update_phase audio_only_args demo_world))
     = Inr [str ''http://x'', str ''http://y'']
   \<and> want_audio audio_only_args \<and> \<not> want_video audio_only_args
   \<and> filter is_mkdir
        (trace (snd (startup audio_only_args demo_world
                       (update_phase audio_only_args demo_world))))
       = [Mkdir (video_dir audio_only_args) True True,
          Mkdir (music_dir audio_only_args) True True]"
proof -
  have s1: "fst (startup audio_only_args demo_world (update_phase audio_only_args demo_world))
     = Inr [str ''http://x'', str ''http://y'']"
    by (rule demo_startup_fst) (simp_all add: audio_only_args_fields demo_world_fields demo_open)
  show ?thesis
    using both_dirs_created [OF audio_only_reaches] s1
    by (simp add: audio_only_args_fields)
qed

end
